theory Spec2Isabelle
  imports Complex_Main "HOL-Library.AList" "HOL-Library.Sublist"
begin

section \<open>The gateway of src/server/server.js\<close>

text \<open>
  The server proxies four GET routes to https://rugplay.com/api and renders graphs through
  a Python subprocess. Strings are lists of bytes: a JavaScript string is represented by
  its UTF-8 encoding, which is also what the URL and form serialisers percent-encode.
  Logging (console.log, console.error) has no effect on any response and is left out.
\<close>

subsection \<open>Values of the parsed query string\<close>

text \<open>
  Express hands the handler \<open>req.query\<close>: a name that is absent reads as
  \<open>undefined\<close> (here \<open>None\<close>), a name given once reads as a string and a name
  given several times as an array of strings. Nested objects, which the extended query
  parser builds from bracketed names, are not part of this model.
\<close>

datatype qval = QStr string | QArr "string list"

record request =
  query :: "string \<rightharpoonup> qval"

text \<open>\<open>Array.prototype.join\<close> with a separator.\<close>

fun join :: "string \<Rightarrow> string list \<Rightarrow> string" where
  "join sep [] = []"
| "join sep [x] = x"
| "join sep (x # y # ys) = x @ sep @ join sep (y # ys)"

text \<open>
  \<open>String(v)\<close>, which is also what a template literal and the constructor of
  \<open>URLSearchParams\<close> apply to a value: \<open>undefined\<close> becomes the nine letters
  of its name, an array is joined with commas.
\<close>

fun to_string :: "qval option \<Rightarrow> string" where
  "to_string None = ''undefined''"
| "to_string (Some (QStr s)) = s"
| "to_string (Some (QArr xs)) = join '','' xs"

text \<open>Truthiness, as \<open>||\<close> tests it: \<open>undefined\<close> and the empty string are falsy.\<close>

fun truthy :: "qval option \<Rightarrow> bool" where
  "truthy None = False"
| "truthy (Some (QStr s)) = (s \<noteq> [])"
| "truthy (Some (QArr xs)) = True"

subsection \<open>Start-up configuration (lines 10 to 20)\<close>

record config =
  runMode :: string
  API_KEY :: "string option"

text \<open>
  \<open>process.env\<close> maps names to strings. \<open>RUN_MODE || 'local'\<close> falls back on an
  absent or empty variable; \<open>API_KEY\<close> is assigned in local mode only and stays
  \<open>undefined\<close> otherwise.
\<close>

definition load_config :: "(string \<rightharpoonup> string) \<Rightarrow> config" where
  "load_config env =
     (let rm = (case env ''RUN_MODE'' of
                  None \<Rightarrow> ''local''
                | Some s \<Rightarrow> if s = [] then ''local'' else s)
      in \<lparr> runMode = rm,
           API_KEY = (if rm = ''local'' then env ''RUGPLAY_API_KEY'' else None) \<rparr>)"

subsection \<open>getAuthHeaders (lines 47 to 65)\<close>

text \<open>
  The header object is an association list in insertion order; an assignment
  \<open>headers[k] = v\<close> is \<open>AList.update\<close>, which replaces in place or appends.
\<close>

definition getAuthHeaders :: "config \<Rightarrow> request \<Rightarrow> (string \<times> string) list" where
  "getAuthHeaders cfg req =
     (let authToken = (if runMode cfg = ''local''
                       then map_option QStr (API_KEY cfg)
                       else query req ''apikey'');
          headers = [(''Authorization'', ''Bearer '' @ to_string authToken),
                     (''Content-Type'', ''application/json'')]
      in if runMode cfg \<noteq> ''local'' then
           (let h1 = AList.update ''User-Agent''
                      ''Mozilla/5.0 (Windows NT 10.0; Win64; x64) AppleWebKit/537.36 (KHTML, like Gecko) Chrome/58.0.3029.110 Safari/537.3''
                      headers;
                h2 = AList.update ''Accept'' ''application/json, text/plain, */*'' h1;
                h3 = AList.update ''Accept-Language'' ''en-US,en;q=0.9'' h2;
                h4 = AList.update ''Accept-Encoding'' ''gzip, deflate, br'' h3;
                h5 = AList.update ''Connection'' ''keep-alive'' h4;
                h6 = AList.update ''Pragma'' ''no-cache'' h5;
                h7 = AList.update ''Cache-Control'' ''no-cache'' h6
            in h7)
         else headers)"

subsection \<open>JSON values and responses\<close>

text \<open>
  The values \<open>JSON.parse\<close> returns and \<open>res.json\<close> sends. A response is what a
  handler hands to Express: the status given to \<open>res.status\<close> (200 when it is not
  set) and the value given to \<open>res.json\<close>.
\<close>

datatype json =
    JNull
  | JBool bool
  | JNum rat
  | JStr string
  | JArr "json list"
  | JObj "(string \<times> json) list"

record http_response =
  res_status :: nat
  res_body :: json

text \<open>The one outbound call a proxy handler makes: \<open>fetch(url, {method, headers})\<close>.\<close>

record outbound =
  out_method :: string
  out_url :: string
  out_headers :: "(string \<times> string) list"

text \<open>
  What the upstream does with a call: the fetch promise rejects (no connection, no
  fetch module), or it resolves to a response with a status and a body, the reading of
  which gives its text or fails (\<open>None\<close>), or it stays pending for ever, since the
  call sets no timeout.
\<close>

datatype upstream = Rejected | Responded nat "string option" | Pending

text \<open>\<open>response.ok\<close> of the fetch API: the status is in the range 200 to 299.\<close>

definition response_ok :: "nat \<Rightarrow> bool" where
  "response_ok s = (200 \<le> s \<and> s < 300)"

subsection \<open>handleApiRequest (lines 70 to 97)\<close>

text \<open>
  How the \<open>try\<close> block ends: it sends a response, it throws (an exception or a
  rejected promise), or it waits for ever.
\<close>

datatype attempt = Sent http_response | Threw | Waiting

text \<open>
  The body of the \<open>try\<close> block. \<open>parse\<close> is \<open>JSON.parse\<close>, a function of
  the platform that the handler is given and that returns \<open>None\<close> where
  \<open>JSON.parse\<close> throws.
\<close>

definition try_fetch :: "(string \<Rightarrow> json option) \<Rightarrow> upstream \<Rightarrow> attempt" where
  "try_fetch parse r =
     (case r of
        Rejected \<Rightarrow> Threw
      | Pending \<Rightarrow> Waiting
      | Responded st body \<Rightarrow>
          if \<not> response_ok st then
            (case body of
               None \<Rightarrow> Threw
             | Some errorText \<Rightarrow>
                 Sent \<lparr> res_status = st,
                        res_body = JObj [(''error'', JStr ''Failed to fetch data from external API.''),
                                         (''details'', JStr errorText)] \<rparr>)
          else
            (case body of
               None \<Rightarrow> Threw
             | Some text \<Rightarrow>
                 (case parse text of
                    None \<Rightarrow> Threw
                  | Some data \<Rightarrow> Sent \<lparr> res_status = 200, res_body = data \<rparr>)))"

text \<open>
  The handler returns the outbound call it issued and the response it sent, if it sent
  one; the \<open>catch\<close> block answers a throw with status 500. \<open>net\<close> is the
  upstream's behaviour on a call.
\<close>

definition handleApiRequest ::
  "(string \<Rightarrow> json option) \<Rightarrow> config \<Rightarrow> (outbound \<Rightarrow> upstream) \<Rightarrow> string \<Rightarrow> request
     \<Rightarrow> outbound \<times> http_response option" where
  "handleApiRequest parse cfg net url req =
     (let call = \<lparr> out_method = ''GET'', out_url = url, out_headers = getAuthHeaders cfg req \<rparr>
      in (call,
          case try_fetch parse (net call) of
            Sent r \<Rightarrow> Some r
          | Threw \<Rightarrow> Some \<lparr> res_status = 500,
                             res_body = JObj [(''error'', JStr ''Internal server error.'')] \<rparr>
          | Waiting \<Rightarrow> None))"

text \<open>The header lookup by name, as the receiving side reads it.\<close>

definition header :: "string \<Rightarrow> outbound \<Rightarrow> string option" where
  "header name call = map_of (out_headers call) name"

subsection \<open>POST /api/graph (lines 151 to 187)\<close>

text \<open>
  The handler writes \<open>JSON.stringify(req.body)\<close> to the standard input of a Python
  process and closes it. What the process does then is its run: the chunks it writes to
  its two output streams, each as \<open>data.toString()\<close> gives it, followed by the
  one \<open>close\<close> event, which carries the exit code, or \<open>null\<close> (here
  \<open>None\<close>) when a signal ended the process.
\<close>

datatype stream_event = Stdout string | Stderr string

record child_run =
  child_events :: "stream_event list"
  child_code :: "int option"

text \<open>The two \<open>data\<close> listeners: standard output is appended, standard error only logged.\<close>

fun on_data :: "string \<Rightarrow> stream_event \<Rightarrow> string" where
  "on_data pythonOutput (Stdout d) = pythonOutput @ d"
| "on_data pythonOutput (Stderr d) = pythonOutput"

text \<open>The \<open>close\<close> listener (lines 168 to 182).\<close>

definition on_close :: "(string \<Rightarrow> json option) \<Rightarrow> string \<Rightarrow> int option \<Rightarrow> http_response" where
  "on_close parse pythonOutput code =
     (if code = Some 0 then
        (case parse pythonOutput of
           Some graphData \<Rightarrow>
             \<lparr> res_status = 200,
               res_body = JObj [(''success'', JBool True), (''graphData'', graphData)] \<rparr>
         | None \<Rightarrow>
             \<lparr> res_status = 500,
               res_body = JObj [(''success'', JBool False),
                                (''error'', JStr ''Failed to process graph data'')] \<rparr>)
      else
        \<lparr> res_status = 500,
          res_body = JObj [(''success'', JBool False),
                           (''error'', JStr ''Graph generation failed'')] \<rparr>)"

text \<open>
  The handler: \<open>stringify\<close> is \<open>JSON.stringify\<close> and \<open>spawn\<close> the Python
  process as a function of what it reads; a process that never closes has no run
  (\<open>None\<close>), and the handler, which sets no timeout, then sends no response. The
  result is the text written to the process and the response sent when it closes.
\<close>

definition graph ::
  "(string \<Rightarrow> json option) \<Rightarrow> (json \<Rightarrow> string) \<Rightarrow> (string \<Rightarrow> child_run option) \<Rightarrow> json
     \<Rightarrow> string \<times> http_response option" where
  "graph parse stringify spawn body =
     (let dataToSend = stringify body
      in (dataToSend,
          case spawn dataToSend of
            None \<Rightarrow> None
          | Some run \<Rightarrow>
              (let pythonOutput = foldl on_data [] (child_events run)
               in Some (on_close parse pythonOutput (child_code run)))))"

text \<open>The accumulated standard output of a run, in the order written.\<close>

fun stdout_text :: "stream_event list \<Rightarrow> string" where
  "stdout_text [] = []"
| "stdout_text (Stdout d # es) = d @ stdout_text es"
| "stdout_text (Stderr d # es) = stdout_text es"

subsection \<open>Bytes and character classes\<close>

text \<open>The numeric value of a byte, and the ASCII letters and digits.\<close>

definition byte :: "char \<Rightarrow> nat" where
  "byte c = of_char c"

definition is_alnum :: "char \<Rightarrow> bool" where
  "is_alnum c = ((48 \<le> byte c \<and> byte c \<le> 57) \<or> (65 \<le> byte c \<and> byte c \<le> 90)
                 \<or> (97 \<le> byte c \<and> byte c \<le> 122))"

subsection \<open>Numbers: parseInt and the string of a number\<close>

text \<open>
  The numbers the handlers meet are \<open>NaN\<close> and integers: \<open>Finite n\<close> is the number
  whose mathematical value \<open>parseInt\<close> computed as \<open>n\<close>. Up to \<open>2 ^ 53\<close> in absolute
  value, a JavaScript number holds \<open>n\<close> exactly; beyond, it holds the nearest double
  (possibly \<open>Infinity\<close>), which is still not zero and not \<open>NaN\<close>. Negative zero is
  \<open>Finite 0\<close>: it is falsy and prints as \<open>0\<close>, as zero does.
\<close>

datatype jsnum = NaN | Finite int

text \<open>
  The white space \<open>parseInt\<close> skips (\<open>StrWhiteSpaceChar\<close>), each character as its
  UTF-8 bytes: tab, line feed, vertical tab, form feed, carriage return, space, U+00A0,
  U+1680, U+2000 to U+200A, U+2028, U+2029, U+202F, U+205F, U+3000 and U+FEFF.
\<close>

definition white_space :: "string list" where
  "white_space =
     [[CHR 0x09], [CHR 0x0A], [CHR 0x0B], [CHR 0x0C], [CHR 0x0D], [CHR 0x20],
      [CHR 0xC2, CHR 0xA0], [CHR 0xE1, CHR 0x9A, CHR 0x80],
      [CHR 0xE2, CHR 0x80, CHR 0x80], [CHR 0xE2, CHR 0x80, CHR 0x81],
      [CHR 0xE2, CHR 0x80, CHR 0x82], [CHR 0xE2, CHR 0x80, CHR 0x83],
      [CHR 0xE2, CHR 0x80, CHR 0x84], [CHR 0xE2, CHR 0x80, CHR 0x85],
      [CHR 0xE2, CHR 0x80, CHR 0x86], [CHR 0xE2, CHR 0x80, CHR 0x87],
      [CHR 0xE2, CHR 0x80, CHR 0x88], [CHR 0xE2, CHR 0x80, CHR 0x89],
      [CHR 0xE2, CHR 0x80, CHR 0x8A], [CHR 0xE2, CHR 0x80, CHR 0xA8],
      [CHR 0xE2, CHR 0x80, CHR 0xA9], [CHR 0xE2, CHR 0x80, CHR 0xAF],
      [CHR 0xE2, CHR 0x81, CHR 0x9F], [CHR 0xE3, CHR 0x80, CHR 0x80],
      [CHR 0xEF, CHR 0xBB, CHR 0xBF]]"

definition leading_space :: "string \<Rightarrow> string option" where
  "leading_space s = find (\<lambda>w. prefix w s) white_space"

function trim_start :: "string \<Rightarrow> string" where
  "trim_start s =
     (case leading_space s of
        None \<Rightarrow> s
      | Some w \<Rightarrow> trim_start (drop (length w) s))"
  by pat_completeness auto
termination
proof (relation "measure length")
  show "wf (measure length)" by simp
next
  fix s w
  assume "leading_space s = Some w"
  then have "w \<in> set white_space" and "prefix w s"
    by (auto simp: leading_space_def find_Some_iff)
  then have "w \<noteq> []" and "length w \<le> length s"
    by (auto simp: white_space_def prefix_def)
  then show "(drop (length w) s, s) \<in> measure length"
    by (cases w) auto
qed

text \<open>The value of a character as a digit, letters counting from ten in either case.\<close>

definition digit_val :: "char \<Rightarrow> nat option" where
  "digit_val c =
     (if 48 \<le> byte c \<and> byte c \<le> 57 then Some (byte c - 48)
      else if 97 \<le> byte c \<and> byte c \<le> 122 then Some (byte c - 87)
      else if 65 \<le> byte c \<and> byte c \<le> 90 then Some (byte c - 55)
      else None)"

definition is_digit_of :: "nat \<Rightarrow> char \<Rightarrow> bool" where
  "is_digit_of R c = (case digit_val c of Some d \<Rightarrow> d < R | None \<Rightarrow> False)"

definition digits_value :: "nat \<Rightarrow> string \<Rightarrow> nat" where
  "digits_value R Z = foldl (\<lambda>n c. n * R + (case digit_val c of Some d \<Rightarrow> d | None \<Rightarrow> 0)) 0 Z"

text \<open>
  \<open>parseInt(string)\<close> with no radix: skip white space, take a sign, take the radix 16
  after \<open>0x\<close> or \<open>0X\<close> and 10 otherwise, read the longest run of digits of that
  radix; no digit gives \<open>NaN\<close>.
\<close>

definition parseInt :: "string \<Rightarrow> jsnum" where
  "parseInt inputString =
     (let S = trim_start inputString;
          sign = (if S \<noteq> [] \<and> hd S = CHR ''-'' then - 1 else 1);
          S1 = (if S \<noteq> [] \<and> (hd S = CHR ''+'' \<or> hd S = CHR ''-'') then tl S else S);
          hex = (prefix ''0x'' S1 \<or> prefix ''0X'' S1);
          R = (if hex then 16 else 10);
          S2 = (if hex then drop 2 S1 else S1);
          Z = takeWhile (is_digit_of R) S2
      in if Z = [] then NaN else Finite (sign * int (digits_value R Z)))"

text \<open>Truthiness of a number: \<open>NaN\<close> and zero are falsy.\<close>

definition num_truthy :: "jsnum \<Rightarrow> bool" where
  "num_truthy x = (x \<noteq> NaN \<and> x \<noteq> Finite 0)"

text \<open>The decimal numeral of a natural number.\<close>

function show_nat :: "nat \<Rightarrow> string" where
  "show_nat n = (if n < 10 then [''0123456789'' ! n]
                 else show_nat (n div 10) @ [''0123456789'' ! (n mod 10)])"
  by pat_completeness auto
termination
  by (relation "measure id") auto

text \<open>
  \<open>String(x)\<close> for a number. In the exact range it is the decimal numeral with its
  sign. Beyond \<open>2 ^ 53\<close> it is the shortest numeral of the nearest double, a
  floating-point computation that is not modelled: \<open>inexact\<close> stands for it, and
  every statement below holds whatever \<open>inexact\<close> is.
\<close>

definition number_to_string :: "(int \<Rightarrow> string) \<Rightarrow> jsnum \<Rightarrow> string" where
  "number_to_string inexact x =
     (case x of
        NaN \<Rightarrow> ''NaN''
      | Finite n \<Rightarrow>
          if \<bar>n\<bar> \<le> 2 ^ 53 then
            (if n < 0 then CHR ''-'' # show_nat (nat (- n)) else show_nat (nat n))
          else inexact n)"

subsection \<open>Percent-encoding\<close>

text \<open>
  The percent-encode sets of the URL standard, as predicates on bytes. Every byte above
  0x7E belongs to all of them, so a code point beyond ASCII is encoded byte by byte.
  (A late revision of the standard adds the caret to the path set; Node leaves it
  unencoded in a path, and so does the set here. No statement below depends on it.)
\<close>

definition c0_control_set :: "char \<Rightarrow> bool" where
  "c0_control_set c = (byte c \<le> 0x1F \<or> 0x7E < byte c)"

definition fragment_set :: "char \<Rightarrow> bool" where
  "fragment_set c = (c0_control_set c \<or> c \<in> set [CHR 0x20, CHR 0x22, CHR ''<'', CHR ''>'', CHR 0x60])"

definition query_set :: "char \<Rightarrow> bool" where
  "query_set c = (c0_control_set c \<or> c \<in> set [CHR 0x20, CHR 0x22, CHR ''#'', CHR ''<'', CHR ''>''])"

definition special_query_set :: "char \<Rightarrow> bool" where
  "special_query_set c = (query_set c \<or> c = CHR 0x27)"

definition path_set :: "char \<Rightarrow> bool" where
  "path_set c = (query_set c \<or> c \<in> set [CHR ''?'', CHR 0x60, CHR ''{'', CHR ''}''])"

definition hex_digit :: "nat \<Rightarrow> char" where
  "hex_digit n = ''0123456789ABCDEF'' ! n"

definition pct :: "char \<Rightarrow> string" where
  "pct c = [CHR ''%'', hex_digit (byte c div 16), hex_digit (byte c mod 16)]"

definition pct_encode :: "(char \<Rightarrow> bool) \<Rightarrow> string \<Rightarrow> string" where
  "pct_encode S s = concat (map (\<lambda>c. if S c then pct c else [c]) s)"

subsection \<open>URLSearchParams\<close>

text \<open>
  The values of the \<open>params\<close> object literals: a value read from the query, or a
  number (a default, or what \<open>parseInt\<close> returned).
\<close>

datatype pval = FromQuery "qval option" | Number jsnum

fun usv_string :: "(int \<Rightarrow> string) \<Rightarrow> pval \<Rightarrow> string" where
  "usv_string inexact (FromQuery v) = to_string v"
| "usv_string inexact (Number x) = number_to_string inexact x"

text \<open>
  \<open>new URLSearchParams(params)\<close> on an object: one pair for each own key, in the
  order of the literal, the value converted to a string. No entry is skipped.
\<close>

definition URLSearchParams :: "(int \<Rightarrow> string) \<Rightarrow> (string \<times> pval) list \<Rightarrow> (string \<times> string) list" where
  "URLSearchParams inexact params = map (\<lambda>(k, v). (k, usv_string inexact v)) params"

text \<open>
  \<open>toString()\<close> is the application/x-www-form-urlencoded serialiser: a space becomes
  \<open>+\<close>, letters, digits and \<open>* - . _\<close> stay, every other byte is percent-encoded.
\<close>

definition form_byte :: "char \<Rightarrow> string" where
  "form_byte c =
     (if c = CHR 0x20 then ''+''
      else if is_alnum c \<or> c \<in> set ''*-._'' then [c]
      else pct c)"

definition form_encode :: "string \<Rightarrow> string" where
  "form_encode s = concat (map form_byte s)"

definition form_serialize :: "(string \<times> string) list \<Rightarrow> string" where
  "form_serialize ps = join ''&'' (map (\<lambda>(k, v). form_encode k @ ''='' @ form_encode v) ps)"

subsection \<open>The URL class\<close>

text \<open>
  A parsed URL on the origin https://rugplay.com: the path segments, the query and the
  fragment, each of the last two absent (\<open>None\<close>) or a string.
\<close>

record url =
  url_path :: "string list"
  url_query :: "string option"
  url_fragment :: "string option"

definition single_dot :: "string \<Rightarrow> bool" where
  "single_dot b = (b \<in> set [''.'', ''%2e'', ''%2E''])"

definition double_dot :: "string \<Rightarrow> bool" where
  "double_dot b = (b \<in> set [''..'', ''.%2e'', ''.%2E'', ''%2e.'', ''%2E.'',
                              ''%2e%2e'', ''%2e%2E'', ''%2E%2e'', ''%2E%2E''])"

text \<open>
  The end of a path segment in the path state. \<open>slash\<close> tells whether the segment
  was ended by a slash or backslash rather than by the end of the path.
\<close>

definition end_segment :: "bool \<Rightarrow> string list \<Rightarrow> string \<Rightarrow> string list" where
  "end_segment slash path buf =
     (if double_dot buf then (if slash then butlast path else butlast path @ [[]])
      else if single_dot buf then (if slash then path else path @ [[]])
      else path @ [buf])"

text \<open>The query state: the query runs to the first \<open>#\<close>, the fragment follows it.\<close>

definition query_state :: "string \<Rightarrow> string \<times> string option" where
  "query_state cs =
     (let q = takeWhile (\<lambda>c. c \<noteq> CHR ''#'') cs;
          rest = dropWhile (\<lambda>c. c \<noteq> CHR ''#'') cs
      in (pct_encode special_query_set q,
          if rest = [] then None else Some (pct_encode fragment_set (tl rest))))"

fun path_state :: "string list \<Rightarrow> string \<Rightarrow> string \<Rightarrow> url" where
  "path_state path buf [] =
     \<lparr> url_path = end_segment False path buf, url_query = None, url_fragment = None \<rparr>"
| "path_state path buf (c # cs) =
     (if c = CHR ''/'' \<or> c = CHR 0x5C then path_state (end_segment True path buf) [] cs
      else if c = CHR ''?'' then
        (let (q, f) = query_state cs
         in \<lparr> url_path = end_segment False path buf, url_query = Some q, url_fragment = f \<rparr>)
      else if c = CHR ''#'' then
        \<lparr> url_path = end_segment False path buf, url_query = None,
          url_fragment = Some (pct_encode fragment_set cs) \<rparr>
      else path_state path (buf @ (if path_set c then pct c else [c])) cs)"

definition c0_or_space :: "char \<Rightarrow> bool" where
  "c0_or_space c = (byte c \<le> 0x20)"

definition tab_or_newline :: "char \<Rightarrow> bool" where
  "tab_or_newline c = (c \<in> set [CHR 0x09, CHR 0x0A, CHR 0x0D])"

text \<open>
  \<open>new URL('https://rugplay.com/' + rest)\<close>. Every URL the server builds starts
  with this origin and a slash, after which the parser of the URL standard is in its
  path state with an empty path: trailing control characters and spaces are stripped,
  tabs and newlines removed, and the rest is read segment by segment. (The leading
  strip does not apply: the input starts with \<open>h\<close>.)
\<close>

definition new_URL_rugplay :: "string \<Rightarrow> url" where
  "new_URL_rugplay rest =
     path_state [] []
       (filter (\<lambda>c. \<not> tab_or_newline c) (rev (dropWhile c0_or_space (rev rest))))"

text \<open>The setter of \<open>url.search\<close>.\<close>

definition set_search :: "url \<Rightarrow> string \<Rightarrow> url" where
  "set_search u v =
     (if v = [] then u\<lparr> url_query := None \<rparr>
      else
        (let input = (if hd v = CHR ''?'' then tl v else v)
         in u\<lparr> url_query :=
                  Some (pct_encode special_query_set (filter (\<lambda>c. \<not> tab_or_newline c) input)) \<rparr>))"

text \<open>\<open>url.href\<close>, which is what fetch requests.\<close>

definition href :: "url \<Rightarrow> string" where
  "href u =
     ''https://rugplay.com'' @ concat (map (\<lambda>seg. CHR ''/'' # seg) (url_path u))
       @ (case url_query u of None \<Rightarrow> [] | Some q \<Rightarrow> CHR ''?'' # q)
       @ (case url_fragment u of None \<Rightarrow> [] | Some f \<Rightarrow> CHR ''#'' # f)"

subsection \<open>The proxy routes (lines 102 to 149)\<close>

definition top_coins ::
  "(string \<Rightarrow> json option) \<Rightarrow> config \<Rightarrow> (outbound \<Rightarrow> upstream) \<Rightarrow> request
     \<Rightarrow> outbound \<times> http_response option" where
  "top_coins parse cfg net req =
     handleApiRequest parse cfg net ''https://rugplay.com/api/v1/top'' req"

text \<open>\<open>x || d\<close> on the number \<open>parseInt\<close> returned.\<close>

definition or_default :: "jsnum \<Rightarrow> int \<Rightarrow> jsnum" where
  "or_default x d = (if num_truthy x then x else Finite d)"

definition market_data_params :: "request \<Rightarrow> (string \<times> pval) list" where
  "market_data_params req =
     [(''search'', FromQuery (query req ''search'')),
      (''sortBy'', FromQuery (query req ''sortBy'')),
      (''sortOrder'', FromQuery (query req ''sortOrder'')),
      (''priceFilter'', FromQuery (query req ''priceFilter'')),
      (''changeFilter'', FromQuery (query req ''changeFilter'')),
      (''page'', Number (or_default (parseInt (to_string (query req ''page''))) 1)),
      (''limit'', Number (or_default (parseInt (to_string (query req ''limit''))) 12))]"

definition market_data_target :: "(int \<Rightarrow> string) \<Rightarrow> request \<Rightarrow> url" where
  "market_data_target inexact req =
     (let params = market_data_params req;
          url = new_URL_rugplay ''api/v1/market'';
          url = set_search url (form_serialize (URLSearchParams inexact params))
      in url)"

definition market_data ::
  "(string \<Rightarrow> json option) \<Rightarrow> (int \<Rightarrow> string) \<Rightarrow> config \<Rightarrow> (outbound \<Rightarrow> upstream) \<Rightarrow> request
     \<Rightarrow> outbound \<times> http_response option" where
  "market_data parse inexact cfg net req =
     handleApiRequest parse cfg net (href (market_data_target inexact req)) req"

definition coin_info_params :: "request \<Rightarrow> (string \<times> pval) list" where
  "coin_info_params req =
     [(''timeframe'', if truthy (query req ''timeframe'') then FromQuery (query req ''timeframe'')
                      else FromQuery (Some (QStr ''1m'')))]"

definition coin_info_target :: "(int \<Rightarrow> string) \<Rightarrow> request \<Rightarrow> url" where
  "coin_info_target inexact req =
     (let params = coin_info_params req;
          url = new_URL_rugplay (''api/v1/coin/'' @ to_string (query req ''symbol''));
          url = set_search url (form_serialize (URLSearchParams inexact params))
      in url)"

definition coin_info ::
  "(string \<Rightarrow> json option) \<Rightarrow> (int \<Rightarrow> string) \<Rightarrow> config \<Rightarrow> (outbound \<Rightarrow> upstream) \<Rightarrow> request
     \<Rightarrow> outbound \<times> http_response option" where
  "coin_info parse inexact cfg net req =
     handleApiRequest parse cfg net (href (coin_info_target inexact req)) req"

definition coin_holders_params :: "request \<Rightarrow> (string \<times> pval) list" where
  "coin_holders_params req =
     [(''limit'', if truthy (query req ''limit'') then FromQuery (query req ''limit'')
                  else Number (Finite 50))]"

definition coin_holders_target :: "(int \<Rightarrow> string) \<Rightarrow> request \<Rightarrow> url" where
  "coin_holders_target inexact req =
     (let params = coin_holders_params req;
          url = new_URL_rugplay (''api/v1/holders/'' @ to_string (query req ''symbol''));
          url = set_search url (form_serialize (URLSearchParams inexact params))
      in url)"

definition coin_holders ::
  "(string \<Rightarrow> json option) \<Rightarrow> (int \<Rightarrow> string) \<Rightarrow> config \<Rightarrow> (outbound \<Rightarrow> upstream) \<Rightarrow> request
     \<Rightarrow> outbound \<times> http_response option" where
  "coin_holders parse inexact cfg net req =
     handleApiRequest parse cfg net (href (coin_holders_target inexact req)) req"

subsection \<open>Reading a query string back\<close>

text \<open>
  What the receiver of a URL does with its query string, the parser of
  application/x-www-form-urlencoded: split at \<open>&\<close>, drop empty pieces, split each
  piece at its first \<open>=\<close>, turn \<open>+\<close> into a space and decode \<open>%XX\<close>. It is the
  measure of whether a query string carries a key and of whether a value was encoded
  correctly; the server itself never calls it.
\<close>

fun split_on :: "char \<Rightarrow> string \<Rightarrow> string list" where
  "split_on d [] = [[]]"
| "split_on d (c # cs) =
     (if c = d then [] # split_on d cs
      else (case split_on d cs of [] \<Rightarrow> [[c]] | x # xs \<Rightarrow> (c # x) # xs))"

definition hex_val :: "char \<Rightarrow> nat option" where
  "hex_val c =
     (if 48 \<le> byte c \<and> byte c \<le> 57 then Some (byte c - 48)
      else if 65 \<le> byte c \<and> byte c \<le> 70 then Some (byte c - 55)
      else if 97 \<le> byte c \<and> byte c \<le> 102 then Some (byte c - 87)
      else None)"

fun form_decode :: "string \<Rightarrow> string" where
  "form_decode (c # h # l # cs) =
     (case (c = CHR ''%'', hex_val h, hex_val l) of
        (True, Some a, Some b) \<Rightarrow> char_of (16 * a + b) # form_decode cs
      | _ \<Rightarrow> (if c = CHR ''+'' then CHR 0x20 else c) # form_decode (h # l # cs))"
| "form_decode (c # cs) = (if c = CHR ''+'' then CHR 0x20 else c) # form_decode cs"
| "form_decode [] = []"

definition form_parse :: "string \<Rightarrow> (string \<times> string) list" where
  "form_parse s =
     map (\<lambda>piece. (form_decode (takeWhile (\<lambda>c. c \<noteq> CHR ''='') piece),
                   form_decode (drop 1 (dropWhile (\<lambda>c. c \<noteq> CHR ''='') piece))))
       (filter (\<lambda>piece. piece \<noteq> []) (split_on CHR ''&'' s))"

text \<open>\<open>url.searchParams\<close>: the pairs of the query, none when the URL has no query.\<close>

definition searchParams :: "url \<Rightarrow> (string \<times> string) list" where
  "searchParams u = (case url_query u of None \<Rightarrow> [] | Some q \<Rightarrow> form_parse q)"

text \<open>
  A symbol is taken to be valid when it is a non-empty run of ASCII letters and digits.
\<close>

definition valid_symbol :: "string \<Rightarrow> bool" where
  "valid_symbol s = (s \<noteq> [] \<and> list_all is_alnum s)"

subsection \<open>Character classes used in the proofs\<close>

text \<open>
  The characters the form serialiser can emit for a name or value, one serialised pair,
  the characters of a whole serialised query, the characters the path state copies
  into a segment unchanged, and the decimal digits.
\<close>

definition form_safe :: "char \<Rightarrow> bool" where
  "form_safe c = (is_alnum c \<or> c \<in> set ''*-._+%'')"

definition form_pair :: "string \<times> string \<Rightarrow> string" where
  "form_pair p = form_encode (fst p) @ ''='' @ form_encode (snd p)"

definition query_safe :: "char \<Rightarrow> bool" where
  "query_safe c = (form_safe c \<or> c = CHR ''='' \<or> c = CHR ''&'')"

definition plain_char :: "char \<Rightarrow> bool" where
  "plain_char c = (\<not> path_set c \<and> c \<noteq> CHR ''/'' \<and> c \<noteq> CHR 0x5C)"

definition is_dec :: "char \<Rightarrow> bool" where
  "is_dec c = (48 \<le> byte c \<and> byte c \<le> 57)"

section \<open>Properties of the serialisers and of the URL parser\<close>

declare trim_start.simps [simp del] show_nat.simps [simp del]

lemma byte_less: "byte c < 256"
  by (simp add: byte_def)

lemma below_16:
  "n < 16 \<Longrightarrow> n \<in> set [0, 1, 2, 3, 4, 5, 6, 7, 8, 9, 10, 11, 12, 13, 14, 15 :: nat]"
  by (simp; arith)

lemma hex_digit_alnum: "n < 16 \<Longrightarrow> is_alnum (hex_digit n)"
  using below_16 [of n] by (auto simp: hex_digit_def is_alnum_def byte_def)

lemma hex_val_hex_digit: "n < 16 \<Longrightarrow> hex_val (hex_digit n) = Some n"
  using below_16 [of n] by (auto simp: hex_digit_def hex_val_def byte_def)

lemma pct_safe: "list_all form_safe (pct c)"
proof -
  have "byte c div 16 < 16" "byte c mod 16 < 16"
    using byte_less [of c] by auto
  then show ?thesis
    by (simp add: pct_def form_safe_def hex_digit_alnum)
qed

lemma form_byte_safe: "list_all form_safe (form_byte c)"
  using pct_safe [of c] by (simp add: form_byte_def form_safe_def)

lemma form_encode_safe: "list_all form_safe (form_encode s)"
  by (induction s) (simp_all add: form_encode_def form_byte_safe)

lemma form_safe_chars:
  assumes "form_safe c"
  shows "c \<noteq> CHR ''&''" "c \<noteq> CHR ''=''" "c \<noteq> CHR ''?''" "c \<noteq> CHR ''#''"
    "\<not> special_query_set c" "\<not> tab_or_newline c"
  using assms
  by (auto simp: form_safe_def is_alnum_def byte_def special_query_set_def query_set_def
        c0_control_set_def tab_or_newline_def)

lemma pct_encode_id: "list_all (\<lambda>c. \<not> S c) s \<Longrightarrow> pct_encode S s = s"
  by (induction s) (simp_all add: pct_encode_def)

lemma form_serialize_Nil: "form_serialize [] = []"
  by (simp add: form_serialize_def)

lemma form_serialize_single: "form_serialize [p] = form_pair p"
  by (simp add: form_serialize_def form_pair_def split: prod.splits)

lemma form_serialize_Cons:
  "form_serialize (p # q # ps) = form_pair p @ ''&'' @ form_serialize (q # ps)"
  by (simp add: form_serialize_def form_pair_def split: prod.splits)

lemma form_pair_safe: "list_all query_safe (form_pair p)"
proof -
  have "list_all query_safe (form_encode s)" for s
    using form_encode_safe [of s] by (simp add: list_all_iff query_safe_def)
  then show ?thesis
    by (simp add: form_pair_def query_safe_def)
qed

lemma form_serialize_safe: "list_all query_safe (form_serialize ps)"
proof (induction ps rule: induct_list012)
  case 1
  show ?case by (simp add: form_serialize_Nil)
next
  case (2 p)
  show ?case by (simp add: form_serialize_single form_pair_safe)
next
  case (3 p q ps)
  have "query_safe CHR ''&''"
    by (simp add: query_safe_def)
  with 3 show ?case
    by (simp add: form_serialize_Cons form_pair_safe)
qed

lemma form_pair_not_Nil: "form_pair p \<noteq> []"
  by (simp add: form_pair_def)

lemma form_serialize_not_Nil: "ps \<noteq> [] \<Longrightarrow> form_serialize ps \<noteq> []"
  by (induction ps rule: induct_list012)
     (simp_all add: form_serialize_single form_serialize_Cons form_pair_not_Nil)

lemma query_safe_chars:
  assumes "query_safe c"
  shows "c \<noteq> CHR ''?'' \<and> \<not> special_query_set c \<and> \<not> tab_or_newline c"
proof -
  consider "form_safe c" | "c = CHR ''=''" | "c = CHR ''&''"
    using assms by (auto simp: query_safe_def)
  then show ?thesis
  proof cases
    case 1
    then show ?thesis
      using form_safe_chars [of c] by blast
  next
    case 2
    then show ?thesis
      by (simp add: special_query_set_def query_set_def c0_control_set_def
            tab_or_newline_def byte_def)
  next
    case 3
    then show ?thesis
      by (simp add: special_query_set_def query_set_def c0_control_set_def
            tab_or_newline_def byte_def)
  qed
qed

lemma set_search_safe:
  assumes "v \<noteq> []" and "list_all query_safe v"
  shows "set_search u v = u\<lparr> url_query := Some v \<rparr>"
proof -
  from assms have "hd v \<noteq> CHR ''?''"
    by (cases v) (auto dest: query_safe_chars)
  moreover from assms(2) have "filter (\<lambda>c. \<not> tab_or_newline c) v = v"
    by (induction v) (auto dest: query_safe_chars)
  moreover from assms(2) have "pct_encode special_query_set v = v"
    by (intro pct_encode_id) (auto simp: list_all_iff dest: query_safe_chars)
  ultimately show ?thesis
    using assms(1) by (simp add: set_search_def)
qed

lemma set_search_serialize:
  "ps \<noteq> [] \<Longrightarrow> set_search u (form_serialize ps) = u\<lparr> url_query := Some (form_serialize ps) \<rparr>"
  by (simp add: set_search_safe form_serialize_not_Nil form_serialize_safe)

lemma form_decode_plain:
  assumes "c \<noteq> CHR ''%''"
  shows "form_decode (c # t) = (if c = CHR ''+'' then CHR 0x20 else c) # form_decode t"
proof (cases t)
  case Nil
  then show ?thesis by simp
next
  case (Cons h r)
  with assms show ?thesis by (cases r) simp_all
qed

lemma form_decode_pct:
  "hex_val h = Some a \<Longrightarrow> hex_val l = Some b \<Longrightarrow>
     form_decode (CHR ''%'' # h # l # t) = char_of (16 * a + b) # form_decode t"
  by simp

lemma char_of_byte: "char_of (byte c) = c"
  by (simp add: byte_def)

lemma form_decode_byte: "form_decode (form_byte c @ t) = c # form_decode t"
proof -
  have lt: "byte c div 16 < 16" "byte c mod 16 < 16"
    using byte_less [of c] by auto
  have "form_decode (pct c @ t) = c # form_decode t"
    using form_decode_pct [OF hex_val_hex_digit [OF lt(1)] hex_val_hex_digit [OF lt(2)], of t]
    by (simp add: pct_def char_of_byte del: form_decode.simps)
  moreover have "c \<noteq> CHR ''%'' \<and> c \<noteq> CHR ''+''" if "is_alnum c \<or> c \<in> set ''*-._''"
    using that by (auto simp: is_alnum_def byte_def)
  ultimately show ?thesis
    by (auto simp: form_byte_def form_decode_plain)
qed

lemma form_encode_Cons: "form_encode (c # s) = form_byte c @ form_encode s"
  by (simp add: form_encode_def)

lemma form_decode_encode: "form_decode (form_encode s) = s"
proof (induction s)
  case Nil
  show ?case by (simp add: form_encode_def)
next
  case (Cons c s)
  then show ?case
    by (simp only: form_encode_Cons form_decode_byte)
qed

lemma split_on_none: "d \<notin> set x \<Longrightarrow> split_on d x = [x]"
  by (induction x) auto

lemma split_on_first: "d \<notin> set x \<Longrightarrow> split_on d (x @ d # rest) = x # split_on d rest"
  by (induction x) auto

lemma form_encode_no_sep:
  "CHR ''&'' \<notin> set (form_encode s)" "CHR ''='' \<notin> set (form_encode s)"
proof -
  have safe: "\<forall>c \<in> set (form_encode s). form_safe c"
    using form_encode_safe [of s] by (simp add: list_all_iff)
  show "CHR ''&'' \<notin> set (form_encode s)"
    using safe form_safe_chars(1) by blast
  show "CHR ''='' \<notin> set (form_encode s)"
    using safe form_safe_chars(2) by blast
qed

lemma form_pair_no_amp: "CHR ''&'' \<notin> set (form_pair p)"
  by (simp add: form_pair_def form_encode_no_sep)

lemma takeWhile_until: "d \<notin> set x \<Longrightarrow> takeWhile (\<lambda>c. c \<noteq> d) (x @ d # y) = x"
  by (induction x) auto

lemma dropWhile_until: "d \<notin> set x \<Longrightarrow> dropWhile (\<lambda>c. c \<noteq> d) (x @ d # y) = d # y"
  by (induction x) auto

lemma form_pair_name:
  "takeWhile (\<lambda>c. c \<noteq> CHR ''='') (form_pair p) = form_encode (fst p)"
  using takeWhile_until [OF form_encode_no_sep(2), of "fst p"]
  by (simp add: form_pair_def)

lemma form_pair_value:
  "drop (Suc 0) (dropWhile (\<lambda>c. c \<noteq> CHR ''='') (form_pair p)) = form_encode (snd p)"
  using dropWhile_until [OF form_encode_no_sep(2), of "fst p"]
  by (simp add: form_pair_def)

lemma split_serialize:
  "filter (\<lambda>piece. piece \<noteq> []) (split_on CHR ''&'' (form_serialize ps)) = map form_pair ps"
proof (induction ps rule: induct_list012)
  case 1
  show ?case by (simp add: form_serialize_Nil)
next
  case (2 p)
  show ?case
    by (simp add: form_serialize_single split_on_none form_pair_no_amp form_pair_not_Nil)
next
  case (3 p q ps)
  have "split_on CHR ''&'' (form_serialize (p # q # ps))
          = form_pair p # split_on CHR ''&'' (form_serialize (q # ps))"
    using split_on_first [OF form_pair_no_amp, of p "form_serialize (q # ps)"]
    by (simp add: form_serialize_Cons)
  with 3 show ?case
    by (simp add: form_pair_not_Nil)
qed

lemma form_parse_serialize: "form_parse (form_serialize ps) = ps"
  by (simp add: form_parse_def split_serialize form_pair_name form_pair_value
        form_decode_encode o_def map_idI)

lemma char_32: "char_of (32::nat) = CHR 0x20"
  by code_simp

lemma c0_or_space_cases: 
  assumes "c0_or_space c"
  shows "c0_control_set c \<or> c = CHR 0x20"
proof -
  from assms have "byte c \<le> 0x1F \<or> byte c = 0x20"
    unfolding c0_or_space_def by arith
  then show ?thesis
  proof
    assume "byte c \<le> 0x1F"
    then show ?thesis by (simp add: c0_control_set_def)
  next
    assume "byte c = 0x20"
    then have "char_of (byte c) = char_of (32::nat)" by simp
    then have "c = CHR 0x20" by (simp only: char_of_byte char_32)
    then show ?thesis by blast
  qed
qed

lemma tab_or_newline_c0: "tab_or_newline c \<Longrightarrow> c0_control_set c"
  by (auto simp: tab_or_newline_def c0_control_set_def byte_def)

lemma path_set_members:
  "path_set CHR ''?''" "path_set CHR ''#''" "path_set CHR 0x20"
  by (simp_all add: path_set_def query_set_def)

lemma c0_control_path: "c0_control_set c \<Longrightarrow> path_set c"
  by (simp add: path_set_def query_set_def)

lemma plain_char_simps:
  assumes "plain_char c"
  shows "c \<noteq> CHR ''/''" "c \<noteq> CHR 0x5C" "c \<noteq> CHR ''?''" "c \<noteq> CHR ''#''" "\<not> path_set c"
    "\<not> c0_or_space c" "\<not> tab_or_newline c"
proof -
  from assms show np: "\<not> path_set c" and "c \<noteq> CHR ''/''" and "c \<noteq> CHR 0x5C"
    by (simp_all add: plain_char_def)
  from np show "c \<noteq> CHR ''?''" and "c \<noteq> CHR ''#''"
    using path_set_members by blast+
  from np show "\<not> c0_or_space c"
    using c0_or_space_cases [of c] c0_control_path [of c] path_set_members(3) by blast
  from np show "\<not> tab_or_newline c"
    using tab_or_newline_c0 [of c] c0_control_path [of c] by blast
qed

lemma path_state_plain:
  "list_all plain_char s \<Longrightarrow>
     path_state p buf s =
       \<lparr> url_path = end_segment False p (buf @ s), url_query = None, url_fragment = None \<rparr>"
proof (induction s arbitrary: buf)
  case Nil
  show ?case by simp
next
  case (Cons c s)
  then have "plain_char c" and "list_all plain_char s"
    by simp_all
  with Cons.IH [of "buf @ [c]"] show ?case
    by (simp add: plain_char_simps)
qed

lemma trim_trailing_id:
  "xs \<noteq> [] \<Longrightarrow> \<not> P (last xs) \<Longrightarrow> rev (dropWhile P (rev xs)) = xs"
  by (cases xs rule: rev_cases) simp_all

lemma alnum_plain: "is_alnum c \<Longrightarrow> plain_char c"
  by (auto simp: is_alnum_def plain_char_def path_set_def query_set_def c0_control_set_def
        byte_def)

lemma alnum_not_dots:
  assumes "list_all is_alnum s"
  shows "\<not> single_dot s" "\<not> double_dot s"
  using assms by (auto simp: single_dot_def double_dot_def is_alnum_def byte_def)

lemma preprocess_plain:
  assumes "list_all plain_char s" and "pre \<noteq> []" and "\<not> c0_or_space (last pre)"
    and "list_all (\<lambda>c. \<not> tab_or_newline c) pre"
  shows "filter (\<lambda>c. \<not> tab_or_newline c) (rev (dropWhile c0_or_space (rev (pre @ s)))) = pre @ s"
proof -
  have "\<not> c0_or_space (last (pre @ s))"
  proof (cases "s = []")
    case True
    with assms(3) show ?thesis by simp
  next
    case False
    then have "last s \<in> set s" by simp
    with assms(1) have "plain_char (last s)"
      by (simp add: list_all_iff)
    with False show ?thesis
      by (simp add: plain_char_simps)
  qed
  then have "rev (dropWhile c0_or_space (rev (pre @ s))) = pre @ s"
    using assms(2) by (intro trim_trailing_id) simp_all
  moreover have "filter (\<lambda>c. \<not> tab_or_newline c) s = s"
    using assms(1) by (induction s) (simp_all add: plain_char_simps)
  moreover have "filter (\<lambda>c. \<not> tab_or_newline c) pre = pre"
    using assms(4) by (induction pre) simp_all
  ultimately show ?thesis by simp
qed

lemma path_state_coin:
  "path_state [] [] (''api/v1/coin/'' @ s) = path_state [''api'', ''v1'', ''coin''] [] s"
  by (simp add: end_segment_def single_dot_def double_dot_def path_set_def query_set_def
        c0_control_set_def byte_def)

lemma path_state_holders:
  "path_state [] [] (''api/v1/holders/'' @ s) = path_state [''api'', ''v1'', ''holders''] [] s"
  by (simp add: end_segment_def single_dot_def double_dot_def path_set_def query_set_def
        c0_control_set_def byte_def)

lemma new_URL_coin:
  assumes "list_all plain_char s" and "\<not> single_dot s" and "\<not> double_dot s"
  shows "new_URL_rugplay (''api/v1/coin/'' @ s) =
           \<lparr> url_path = [''api'', ''v1'', ''coin'', s], url_query = None, url_fragment = None \<rparr>"
proof -
  have pre: "filter (\<lambda>c. \<not> tab_or_newline c)
          (rev (dropWhile c0_or_space (rev (''api/v1/coin/'' @ s)))) = ''api/v1/coin/'' @ s"
    using assms(1)
    by (intro preprocess_plain) (simp_all add: c0_or_space_def tab_or_newline_def byte_def)
  have "new_URL_rugplay (''api/v1/coin/'' @ s) = path_state [] [] (''api/v1/coin/'' @ s)"
    unfolding new_URL_rugplay_def pre ..
  also have "\<dots> = path_state [''api'', ''v1'', ''coin''] [] s"
    by (rule path_state_coin)
  also have "\<dots> = \<lparr> url_path = end_segment False [''api'', ''v1'', ''coin''] ([] @ s),
                       url_query = None, url_fragment = None \<rparr>"
    using assms(1) by (rule path_state_plain)
  also have "end_segment False [''api'', ''v1'', ''coin''] ([] @ s) = [''api'', ''v1'', ''coin'', s]"
    using assms(2,3) by (simp add: end_segment_def)
  finally show ?thesis .
qed

lemma new_URL_holders:
  assumes "list_all plain_char s" and "\<not> single_dot s" and "\<not> double_dot s"
  shows "new_URL_rugplay (''api/v1/holders/'' @ s) =
           \<lparr> url_path = [''api'', ''v1'', ''holders'', s], url_query = None, url_fragment = None \<rparr>"
proof -
  have pre: "filter (\<lambda>c. \<not> tab_or_newline c)
          (rev (dropWhile c0_or_space (rev (''api/v1/holders/'' @ s)))) = ''api/v1/holders/'' @ s"
    using assms(1)
    by (intro preprocess_plain) (simp_all add: c0_or_space_def tab_or_newline_def byte_def)
  have "new_URL_rugplay (''api/v1/holders/'' @ s) = path_state [] [] (''api/v1/holders/'' @ s)"
    unfolding new_URL_rugplay_def pre ..
  also have "\<dots> = path_state [''api'', ''v1'', ''holders''] [] s"
    by (rule path_state_holders)
  also have "\<dots> = \<lparr> url_path = end_segment False [''api'', ''v1'', ''holders''] ([] @ s),
                       url_query = None, url_fragment = None \<rparr>"
    using assms(1) by (rule path_state_plain)
  also have "end_segment False [''api'', ''v1'', ''holders''] ([] @ s) = [''api'', ''v1'', ''holders'', s]"
    using assms(2,3) by (simp add: end_segment_def)
  finally show ?thesis .
qed

lemma new_URL_market:
  "new_URL_rugplay ''api/v1/market'' =
     \<lparr> url_path = [''api'', ''v1'', ''market''], url_query = None, url_fragment = None \<rparr>"
  by (simp add: new_URL_rugplay_def end_segment_def single_dot_def double_dot_def path_set_def
        query_set_def c0_control_set_def c0_or_space_def tab_or_newline_def byte_def)

section \<open>The targets of the proxy routes\<close>

lemma href_target:
  "href \<lparr> url_path = [a, b, c], url_query = Some q, url_fragment = None \<rparr>
     = ''https://rugplay.com/'' @ a @ ''/'' @ b @ ''/'' @ c @ ''?'' @ q"
  "href \<lparr> url_path = [a, b, c, d], url_query = Some q, url_fragment = None \<rparr>
     = ''https://rugplay.com/'' @ a @ ''/'' @ b @ ''/'' @ c @ ''/'' @ d @ ''?'' @ q"
  by (simp_all add: href_def)

lemma market_data_target_eq:
  "market_data_target inexact req =
     \<lparr> url_path = [''api'', ''v1'', ''market''],
       url_query = Some (form_serialize (URLSearchParams inexact (market_data_params req))),
       url_fragment = None \<rparr>"
proof -
  have "URLSearchParams inexact (market_data_params req) \<noteq> []"
    by (simp add: URLSearchParams_def market_data_params_def)
  then show ?thesis
    by (simp add: market_data_target_def new_URL_market set_search_serialize)
qed

lemma searchParams_market:
  "searchParams (market_data_target inexact req) = URLSearchParams inexact (market_data_params req)"
  by (simp add: market_data_target_eq searchParams_def form_parse_serialize)

lemma small_numbers:
  "number_to_string inexact (Finite 1) = ''1''"
  "number_to_string inexact (Finite 12) = ''12''"
  "number_to_string inexact (Finite 3) = ''3''"
  "number_to_string inexact (Finite 5) = ''5''"
  "number_to_string inexact (Finite 50) = ''50''"
  by (simp_all add: number_to_string_def show_nat.simps)

lemma parseInt_examples:
  "parseInt ''undefined'' = NaN"
  "parseInt ''3'' = Finite 3"
  "parseInt ''5'' = Finite 5"
  "parseInt ''0'' = Finite 0"
  "parseInt ''abc'' = NaN"
  by code_simp+

section \<open>Decimal numerals\<close>

lemma dec_digit_char: "n < 10 \<Longrightarrow> is_dec (''0123456789'' ! n) \<and> digit_val (''0123456789'' ! n) = Some n"
proof -
  assume "n < 10"
  then have "n \<in> set [0, 1, 2, 3, 4, 5, 6, 7, 8, 9 :: nat]"
    by (simp; arith)
  then show ?thesis
    by (auto simp: is_dec_def digit_val_def byte_def)
qed

lemma show_nat_small: "n < 10 \<Longrightarrow> show_nat n = [''0123456789'' ! n]"
  by (subst show_nat.simps) simp

lemma show_nat_large:
  "\<not> n < 10 \<Longrightarrow> show_nat n = show_nat (n div 10) @ [''0123456789'' ! (n mod 10)]"
  by (subst show_nat.simps) simp

lemma show_nat_digits: "show_nat n \<noteq> [] \<and> list_all is_dec (show_nat n)"
proof (induction n rule: show_nat.induct)
  case (1 n)
  show ?case
  proof (cases "n < 10")
    case True
    then show ?thesis
      using dec_digit_char [of n] by (simp add: show_nat_small)
  next
    case False
    with 1 show ?thesis
      using dec_digit_char [of "n mod 10"] by (simp add: show_nat_large)
  qed
qed

lemma digits_value_snoc:
  "digits_value R (xs @ [c]) = digits_value R xs * R + (case digit_val c of Some d \<Rightarrow> d | None \<Rightarrow> 0)"
  by (simp add: digits_value_def)

lemma digits_value_show_nat: "digits_value 10 (show_nat n) = n"
proof (induction n rule: show_nat.induct)
  case (1 n)
  show ?case
  proof (cases "n < 10")
    case True
    then show ?thesis
      using dec_digit_char [of n] by (simp add: show_nat_small digits_value_def)
  next
    case False
    with 1 have "digits_value 10 (show_nat (n div 10)) = n div 10"
      by simp
    with False show ?thesis
      using dec_digit_char [of "n mod 10"]
      by (simp add: show_nat_large digits_value_snoc)
  qed
qed

lemma white_space_heads: "\<forall>w \<in> set white_space. w \<noteq> [] \<and> \<not> is_dec (hd w)"
  by (simp add: white_space_def is_dec_def byte_def)

lemma dec_not_space:
  assumes "is_dec c"
  shows "leading_space (c # cs) = None"
proof -
  have "\<not> prefix w (c # cs)" if "w \<in> set white_space" for w
  proof
    assume p: "prefix w (c # cs)"
    from that white_space_heads have "w \<noteq> []" and "\<not> is_dec (hd w)"
      by blast+
    with p assms show False
      by (cases w) simp_all
  qed
  then show ?thesis
    by (simp add: leading_space_def find_None_iff)
qed

lemma dec_facts:
  assumes "is_dec c"
  shows "c \<noteq> CHR ''-''" "c \<noteq> CHR ''+''" "c \<noteq> CHR ''x''" "c \<noteq> CHR ''X''" "is_digit_of 10 c"
proof -
  have "\<not> is_dec CHR ''-''" "\<not> is_dec CHR ''+''" "\<not> is_dec CHR ''x''" "\<not> is_dec CHR ''X''"
    by (simp_all add: is_dec_def byte_def)
  with assms show "c \<noteq> CHR ''-''" "c \<noteq> CHR ''+''" "c \<noteq> CHR ''x''" "c \<noteq> CHR ''X''"
    by blast+
  from assms show "is_digit_of 10 c"
    by (auto simp: is_dec_def is_digit_of_def digit_val_def)
qed

lemma parseInt_decimal:
  assumes "s \<noteq> []" and "list_all is_dec s"
  shows "parseInt s = Finite (int (digits_value 10 s))"
proof -
  from assms obtain c cs where s: "s = c # cs" and c: "is_dec c" and cs: "list_all is_dec cs"
    by (cases s) auto
  have trim: "trim_start s = s"
    by (subst trim_start.simps) (simp add: s dec_not_space [OF c])
  have sign: "hd s \<noteq> CHR ''-''" "hd s \<noteq> CHR ''+''"
    using c by (simp_all add: s dec_facts)
  have nohex: "\<not> prefix ''0x'' s \<and> \<not> prefix ''0X'' s"
  proof (cases cs)
    case Nil
    then show ?thesis by (simp add: s)
  next
    case (Cons d ds)
    with cs have "is_dec d" by simp
    then have "d \<noteq> CHR ''x''" "d \<noteq> CHR ''X''"
      by (rule dec_facts)+
    then show ?thesis by (simp add: s Cons)
  qed
  have all: "takeWhile (is_digit_of 10) s = s"
    using assms(2) by (induction s) (simp_all add: dec_facts)
  show ?thesis
    unfolding parseInt_def Let_def trim
    using assms(1) sign nohex by (simp add: all)
qed

lemma parseInt_show_nat: "parseInt (show_nat n) = Finite (int n)"
  using show_nat_digits [of n] by (simp add: parseInt_decimal digits_value_show_nat)

section \<open>Credentials\<close>

lemma getAuthHeaders_local:
  "runMode cfg = ''local'' \<Longrightarrow>
     getAuthHeaders cfg req =
       [(''Authorization'', ''Bearer '' @ to_string (map_option QStr (API_KEY cfg))),
        (''Content-Type'', ''application/json'')]"
  by (simp add: getAuthHeaders_def)

lemma getAuthHeaders_deployed:
  "runMode cfg \<noteq> ''local'' \<Longrightarrow>
     getAuthHeaders cfg req =
       [(''Authorization'', ''Bearer '' @ to_string (query req ''apikey'')),
        (''Content-Type'', ''application/json''),
        (''User-Agent'', ''Mozilla/5.0 (Windows NT 10.0; Win64; x64) AppleWebKit/537.36 (KHTML, like Gecko) Chrome/58.0.3029.110 Safari/537.3''),
        (''Accept'', ''application/json, text/plain, */*''),
        (''Accept-Language'', ''en-US,en;q=0.9''),
        (''Accept-Encoding'', ''gzip, deflate, br''),
        (''Connection'', ''keep-alive''),
        (''Pragma'', ''no-cache''),
        (''Cache-Control'', ''no-cache'')]"
  by (simp add: getAuthHeaders_def)

lemma handleApiRequest_call:
  "fst (handleApiRequest parse cfg net url req) =
     \<lparr> out_method = ''GET'', out_url = url, out_headers = getAuthHeaders cfg req \<rparr>"
  by (simp add: handleApiRequest_def Let_def)

lemma route_headers:
  "out_headers (fst (top_coins parse cfg net req)) = getAuthHeaders cfg req"
  "out_headers (fst (market_data parse inexact cfg net req)) = getAuthHeaders cfg req"
  "out_headers (fst (coin_info parse inexact cfg net req)) = getAuthHeaders cfg req"
  "out_headers (fst (coin_holders parse inexact cfg net req)) = getAuthHeaders cfg req"
  by (simp_all add: top_coins_def market_data_def coin_info_def coin_holders_def
        handleApiRequest_call)

text \<open>
  C2. For each of the four proxy routes and every request: in local mode the
  Authorization header of the outbound call is \<open>Bearer\<close> followed by the configured
  secret, the same for all requests and so whatever \<open>apikey\<close> the caller sent; in any
  other mode it is \<open>Bearer\<close> followed by the request's \<open>apikey\<close> query value.
\<close>

theorem authorization_by_mode:
  "\<forall>route \<in> {top_coins parse cfg net, market_data parse inexact cfg net,
              coin_info parse inexact cfg net, coin_holders parse inexact cfg net}.
     (runMode cfg = ''local'' \<longrightarrow>
        (\<forall>req. header ''Authorization'' (fst (route req))
                 = Some (''Bearer '' @ to_string (map_option QStr (API_KEY cfg))))
        \<and> (\<forall>req secret. API_KEY cfg = Some secret \<longrightarrow>
                 header ''Authorization'' (fst (route req)) = Some (''Bearer '' @ secret)))
     \<and> (runMode cfg \<noteq> ''local'' \<longrightarrow>
        (\<forall>req. header ''Authorization'' (fst (route req))
                 = Some (''Bearer '' @ to_string (query req ''apikey'')))
        \<and> (\<forall>req key. query req ''apikey'' = Some (QStr key) \<longrightarrow>
                 header ''Authorization'' (fst (route req)) = Some (''Bearer '' @ key)))"
  by (simp add: header_def route_headers getAuthHeaders_def)

theorem authorization_by_mode_witness:
  "runMode \<lparr> runMode = ''local'', API_KEY = Some ''s3cret'' \<rparr> = ''local''
   \<and> API_KEY \<lparr> runMode = ''local'', API_KEY = Some ''s3cret'' \<rparr> = Some ''s3cret''
   \<and> header ''Authorization''
        (fst (coin_info (\<lambda>t. None) (\<lambda>n. []) \<lparr> runMode = ''local'', API_KEY = Some ''s3cret'' \<rparr>
               (\<lambda>c. Rejected) \<lparr> query = [''apikey'' \<mapsto> QStr ''other''] \<rparr>))
       = Some ''Bearer s3cret''
   \<and> runMode \<lparr> runMode = ''deployed'', API_KEY = None \<rparr> \<noteq> ''local''
   \<and> query \<lparr> query = [''apikey'' \<mapsto> QStr ''other''] \<rparr> ''apikey'' = Some (QStr ''other'')
   \<and> header ''Authorization''
        (fst (coin_info (\<lambda>t. None) (\<lambda>n. []) \<lparr> runMode = ''deployed'', API_KEY = None \<rparr>
               (\<lambda>c. Rejected) \<lparr> query = [''apikey'' \<mapsto> QStr ''other''] \<rparr>))
       = Some ''Bearer other''"
proof -
  note loc = authorization_by_mode [of "\<lambda>t. None"
      "\<lparr> runMode = ''local'', API_KEY = Some ''s3cret'' \<rparr>" "\<lambda>c. Rejected" "\<lambda>n. []"]
  note dep = authorization_by_mode [of "\<lambda>t. None"
      "\<lparr> runMode = ''deployed'', API_KEY = None \<rparr>" "\<lambda>c. Rejected" "\<lambda>n. []"]
  have m1: "runMode \<lparr> runMode = ''local'', API_KEY = Some ''s3cret'' \<rparr> = ''local''"
    and k1: "API_KEY \<lparr> runMode = ''local'', API_KEY = Some ''s3cret'' \<rparr> = Some ''s3cret''"
    and m2: "runMode \<lparr> runMode = ''deployed'', API_KEY = None \<rparr> \<noteq> ''local''"
    and k2: "query \<lparr> query = [''apikey'' \<mapsto> QStr ''other''] \<rparr> ''apikey'' = Some (QStr ''other'')"
    by simp_all
  from loc m1 k1 have h1: "header ''Authorization''
        (fst (coin_info (\<lambda>t. None) (\<lambda>n. []) \<lparr> runMode = ''local'', API_KEY = Some ''s3cret'' \<rparr>
               (\<lambda>c. Rejected) \<lparr> query = [''apikey'' \<mapsto> QStr ''other''] \<rparr>))
       = Some ''Bearer s3cret''"
    by simp
  from dep m2 k2 have h2: "header ''Authorization''
        (fst (coin_info (\<lambda>t. None) (\<lambda>n. []) \<lparr> runMode = ''deployed'', API_KEY = None \<rparr>
               (\<lambda>c. Rejected) \<lparr> query = [''apikey'' \<mapsto> QStr ''other''] \<rparr>))
       = Some ''Bearer other''"
    by simp
  from m1 k1 h1 m2 k2 h2 show ?thesis
    by blast
qed

text \<open>
  C8. With the mode local and RUGPLAY_API_KEY absent from the environment, the resolver
  has no failing branch: it returns the two headers, the Authorization entry built from
  the absent token (the text \<open>Bearer undefined\<close>), and the handler issues the outbound
  GET with them. With the variable set to the empty string the entry is \<open>Bearer\<close>
  followed by a space and nothing else.
\<close>

theorem local_without_secret:
  assumes "runMode (load_config env) = ''local''"
  shows
    "(env ''RUGPLAY_API_KEY'' = None \<longrightarrow>
        getAuthHeaders (load_config env) req =
          [(''Authorization'', ''Bearer undefined''), (''Content-Type'', ''application/json'')]
        \<and> fst (handleApiRequest parse (load_config env) net url req) =
            \<lparr> out_method = ''GET'', out_url = url,
              out_headers = [(''Authorization'', ''Bearer undefined''),
                             (''Content-Type'', ''application/json'')] \<rparr>)
     \<and> (env ''RUGPLAY_API_KEY'' = Some [] \<longrightarrow>
        getAuthHeaders (load_config env) req =
          [(''Authorization'', ''Bearer ''), (''Content-Type'', ''application/json'')]
        \<and> fst (handleApiRequest parse (load_config env) net url req) =
            \<lparr> out_method = ''GET'', out_url = url,
              out_headers = [(''Authorization'', ''Bearer ''),
                             (''Content-Type'', ''application/json'')] \<rparr>)"
proof -
  have key: "API_KEY (load_config env) = env ''RUGPLAY_API_KEY''"
    using assms by (simp add: load_config_def Let_def split: option.splits if_splits)
  show ?thesis
    by (simp add: handleApiRequest_call getAuthHeaders_local [OF assms] key)
qed

theorem local_without_secret_witness:
  "runMode (load_config Map.empty) = ''local''
   \<and> Map.empty ''RUGPLAY_API_KEY'' = (None :: string option)
   \<and> getAuthHeaders (load_config Map.empty) \<lparr> query = [''apikey'' \<mapsto> QStr ''k''] \<rparr> =
       [(''Authorization'', ''Bearer undefined''), (''Content-Type'', ''application/json'')]
   \<and> fst (handleApiRequest (\<lambda>t. None) (load_config Map.empty) (\<lambda>c. Rejected)
            ''https://rugplay.com/api/v1/top'' \<lparr> query = [''apikey'' \<mapsto> QStr ''k''] \<rparr>) =
         \<lparr> out_method = ''GET'', out_url = ''https://rugplay.com/api/v1/top'',
           out_headers = [(''Authorization'', ''Bearer undefined''),
                          (''Content-Type'', ''application/json'')] \<rparr>
   \<and> runMode (load_config [''RUN_MODE'' \<mapsto> ''local'', ''RUGPLAY_API_KEY'' \<mapsto> '''']) = ''local''
   \<and> [''RUN_MODE'' \<mapsto> ''local'', ''RUGPLAY_API_KEY'' \<mapsto> ''''] ''RUGPLAY_API_KEY'' = Some []
   \<and> getAuthHeaders (load_config [''RUN_MODE'' \<mapsto> ''local'', ''RUGPLAY_API_KEY'' \<mapsto> ''''])
         \<lparr> query = Map.empty \<rparr> =
       [(''Authorization'', ''Bearer ''), (''Content-Type'', ''application/json'')]"
proof -
  have m: "runMode (load_config Map.empty) = ''local''"
    by (simp add: load_config_def)
  have k: "(Map.empty :: string \<rightharpoonup> string) ''RUGPLAY_API_KEY'' = None"
    by simp
  have m': "runMode (load_config [''RUN_MODE'' \<mapsto> ''local'', ''RUGPLAY_API_KEY'' \<mapsto> '''']) = ''local''"
    by (simp add: load_config_def)
  have k': "[''RUN_MODE'' \<mapsto> ''local'', ''RUGPLAY_API_KEY'' \<mapsto> ''''] ''RUGPLAY_API_KEY'' = Some []"
    by simp
  from local_without_secret [OF m, of "\<lparr> query = [''apikey'' \<mapsto> QStr ''k''] \<rparr>" "\<lambda>t. None"
         "\<lambda>c. Rejected" "''https://rugplay.com/api/v1/top''"] k
  have a: "getAuthHeaders (load_config Map.empty) \<lparr> query = [''apikey'' \<mapsto> QStr ''k''] \<rparr> =
       [(''Authorization'', ''Bearer undefined''), (''Content-Type'', ''application/json'')]
    \<and> fst (handleApiRequest (\<lambda>t. None) (load_config Map.empty) (\<lambda>c. Rejected)
            ''https://rugplay.com/api/v1/top'' \<lparr> query = [''apikey'' \<mapsto> QStr ''k''] \<rparr>) =
         \<lparr> out_method = ''GET'', out_url = ''https://rugplay.com/api/v1/top'',
           out_headers = [(''Authorization'', ''Bearer undefined''),
                          (''Content-Type'', ''application/json'')] \<rparr>"
    by blast
  from local_without_secret [OF m', of "\<lparr> query = Map.empty \<rparr>" "\<lambda>t. None"
         "\<lambda>c. Rejected" "''https://rugplay.com/api/v1/top''"] k'
  have b: "getAuthHeaders (load_config [''RUN_MODE'' \<mapsto> ''local'', ''RUGPLAY_API_KEY'' \<mapsto> ''''])
         \<lparr> query = Map.empty \<rparr> =
       [(''Authorization'', ''Bearer ''), (''Content-Type'', ''application/json'')]"
    by blast
  from m k a m' k' b show ?thesis
    by blast
qed

text \<open>
  C6, as the code has it. In every mode other than local the resolver returns nine
  headers, in this order: Authorization, Content-Type, User-Agent, Accept,
  Accept-Language, Accept-Encoding, Connection, Pragma, Cache-Control. Pragma is a seventh
  browser header beside the six the claim lists.
\<close>

theorem deployed_header_names:
  "runMode cfg \<noteq> ''local'' \<Longrightarrow>
     map fst (getAuthHeaders cfg req) =
       [''Authorization'', ''Content-Type'', ''User-Agent'', ''Accept'', ''Accept-Language'',
        ''Accept-Encoding'', ''Connection'', ''Pragma'', ''Cache-Control'']"
  by (simp add: getAuthHeaders_deployed)

theorem deployed_header_names_witness:
  "runMode \<lparr> runMode = ''deployed'', API_KEY = None \<rparr> \<noteq> ''local''
   \<and> map fst (getAuthHeaders \<lparr> runMode = ''deployed'', API_KEY = None \<rparr>
                 \<lparr> query = [''apikey'' \<mapsto> QStr ''k''] \<rparr>) =
       [''Authorization'', ''Content-Type'', ''User-Agent'', ''Accept'', ''Accept-Language'',
        ''Accept-Encoding'', ''Connection'', ''Pragma'', ''Cache-Control'']"
  using deployed_header_names [of "\<lparr> runMode = ''deployed'', API_KEY = None \<rparr>"
          "\<lparr> query = [''apikey'' \<mapsto> QStr ''k''] \<rparr>"]
  by simp

text \<open>
  C6, as the claim states it, fails: for a deployed-mode request the set of header names
  is not the eight names of the claim, since Pragma is among them.
\<close>

theorem deployed_headers_counterexample:
  "set (map fst (getAuthHeaders \<lparr> runMode = ''deployed'', API_KEY = None \<rparr>
                   \<lparr> query = [''apikey'' \<mapsto> QStr ''k''] \<rparr>))
     \<noteq> {''Authorization'', ''Content-Type'', ''User-Agent'', ''Accept'', ''Accept-Language'',
         ''Accept-Encoding'', ''Connection'', ''Cache-Control''}"
proof -
  have "''Pragma'' \<in> set (map fst (getAuthHeaders \<lparr> runMode = ''deployed'', API_KEY = None \<rparr>
                   \<lparr> query = [''apikey'' \<mapsto> QStr ''k''] \<rparr>))"
    by (simp add: getAuthHeaders_deployed)
  moreover have "''Pragma'' \<notin> {''Authorization'', ''Content-Type'', ''User-Agent'', ''Accept'',
         ''Accept-Language'', ''Accept-Encoding'', ''Connection'', ''Cache-Control''}"
    by simp
  ultimately show ?thesis by metis
qed

section \<open>Upstream errors\<close>

lemma handleApiRequest_error:
  "net \<lparr> out_method = ''GET'', out_url = url, out_headers = getAuthHeaders cfg req \<rparr>
       = Responded S (Some B) \<Longrightarrow>
   \<not> response_ok S \<Longrightarrow>
   snd (handleApiRequest parse cfg net url req) =
     Some \<lparr> res_status = S,
            res_body = JObj [(''error'', JStr ''Failed to fetch data from external API.''),
                             (''details'', JStr B)] \<rparr>"
  by (simp add: handleApiRequest_def try_fetch_def Let_def)

lemma route_error:
  assumes "net (fst (handleApiRequest parse cfg net url req)) = Responded S (Some B)"
    and "\<not> response_ok S"
  shows "snd (handleApiRequest parse cfg net url req) =
     Some \<lparr> res_status = S,
            res_body = JObj [(''error'', JStr ''Failed to fetch data from external API.''),
                             (''details'', JStr B)] \<rparr>"
  using assms by (simp add: handleApiRequest_call handleApiRequest_error)

text \<open>
  C3. For each of the four proxy routes and every request: when the upstream answers
  the call the route issued with a status \<open>S\<close> outside 200 to 299 and a body whose
  text is \<open>B\<close>, the route responds with status \<open>S\<close> and the body
  \<open>{error: "Failed to fetch data from external API.", details: B}\<close>. The same holds of
  \<open>handleApiRequest\<close> for any target URL.
\<close>

theorem upstream_error_mirrored:
  "(\<forall>route \<in> {top_coins parse cfg net, market_data parse inexact cfg net,
               coin_info parse inexact cfg net, coin_holders parse inexact cfg net}.
      \<forall>req S B.
        net (fst (route req)) = Responded S (Some B) \<and> \<not> response_ok S \<longrightarrow>
        snd (route req) =
          Some \<lparr> res_status = S,
                 res_body = JObj [(''error'', JStr ''Failed to fetch data from external API.''),
                                  (''details'', JStr B)] \<rparr>)
   \<and> (\<forall>url req S B.
        net \<lparr> out_method = ''GET'', out_url = url, out_headers = getAuthHeaders cfg req \<rparr>
          = Responded S (Some B) \<and> \<not> response_ok S \<longrightarrow>
        snd (handleApiRequest parse cfg net url req) =
          Some \<lparr> res_status = S,
                 res_body = JObj [(''error'', JStr ''Failed to fetch data from external API.''),
                                  (''details'', JStr B)] \<rparr>)"
proof -
  have top: "snd (top_coins parse cfg net req) =
          Some \<lparr> res_status = S,
                 res_body = JObj [(''error'', JStr ''Failed to fetch data from external API.''),
                                  (''details'', JStr B)] \<rparr>"
    if "net (fst (top_coins parse cfg net req)) = Responded S (Some B) \<and> \<not> response_ok S"
    for req S B
    using that unfolding top_coins_def by (simp add: route_error)
  have market: "snd (market_data parse inexact cfg net req) =
          Some \<lparr> res_status = S,
                 res_body = JObj [(''error'', JStr ''Failed to fetch data from external API.''),
                                  (''details'', JStr B)] \<rparr>"
    if "net (fst (market_data parse inexact cfg net req)) = Responded S (Some B) \<and> \<not> response_ok S"
    for req S B
    using that unfolding market_data_def by (simp add: route_error)
  have info: "snd (coin_info parse inexact cfg net req) =
          Some \<lparr> res_status = S,
                 res_body = JObj [(''error'', JStr ''Failed to fetch data from external API.''),
                                  (''details'', JStr B)] \<rparr>"
    if "net (fst (coin_info parse inexact cfg net req)) = Responded S (Some B) \<and> \<not> response_ok S"
    for req S B
    using that unfolding coin_info_def by (simp add: route_error)
  have holders: "snd (coin_holders parse inexact cfg net req) =
          Some \<lparr> res_status = S,
                 res_body = JObj [(''error'', JStr ''Failed to fetch data from external API.''),
                                  (''details'', JStr B)] \<rparr>"
    if "net (fst (coin_holders parse inexact cfg net req)) = Responded S (Some B) \<and> \<not> response_ok S"
    for req S B
    using that unfolding coin_holders_def by (simp add: route_error)
  have generic: "snd (handleApiRequest parse cfg net url req) =
          Some \<lparr> res_status = S,
                 res_body = JObj [(''error'', JStr ''Failed to fetch data from external API.''),
                                  (''details'', JStr B)] \<rparr>"
    if "net \<lparr> out_method = ''GET'', out_url = url, out_headers = getAuthHeaders cfg req \<rparr>
          = Responded S (Some B) \<and> \<not> response_ok S"
    for url req S B
    using that by (simp add: handleApiRequest_error)
  from top market info holders generic show ?thesis
    by blast
qed

text \<open>
  The case of the specification, on two routes: the upstream answers 404 with the body
  \<open>not found\<close>.
\<close>

theorem upstream_error_mirrored_witness:
  "(\<lambda>c. Responded 404 (Some ''not found''))
       (fst (top_coins (\<lambda>t. None) \<lparr> runMode = ''local'', API_KEY = Some ''k'' \<rparr>
               (\<lambda>c. Responded 404 (Some ''not found'')) \<lparr> query = Map.empty \<rparr>))
     = Responded 404 (Some ''not found'')
   \<and> \<not> response_ok 404
   \<and> snd (top_coins (\<lambda>t. None) \<lparr> runMode = ''local'', API_KEY = Some ''k'' \<rparr>
            (\<lambda>c. Responded 404 (Some ''not found'')) \<lparr> query = Map.empty \<rparr>) =
     Some \<lparr> res_status = 404,
            res_body = JObj [(''error'', JStr ''Failed to fetch data from external API.''),
                             (''details'', JStr ''not found'')] \<rparr>
   \<and> snd (coin_info (\<lambda>t. None) (\<lambda>n. []) \<lparr> runMode = ''local'', API_KEY = Some ''k'' \<rparr>
            (\<lambda>c. Responded 404 (Some ''not found''))
            \<lparr> query = [''symbol'' \<mapsto> QStr ''BTC''] \<rparr>) =
     Some \<lparr> res_status = 404,
            res_body = JObj [(''error'', JStr ''Failed to fetch data from external API.''),
                             (''details'', JStr ''not found'')] \<rparr>"
proof -
  have ok: "\<not> response_ok 404"
    by (simp add: response_ok_def)
  note all = upstream_error_mirrored [of "\<lambda>t. None"
      "\<lparr> runMode = ''local'', API_KEY = Some ''k'' \<rparr>"
      "\<lambda>c. Responded 404 (Some ''not found'')" "\<lambda>n. []"]
  from all have top: "\<forall>req S B.
        (\<lambda>c. Responded 404 (Some ''not found''))
          (fst (top_coins (\<lambda>t. None) \<lparr> runMode = ''local'', API_KEY = Some ''k'' \<rparr>
                  (\<lambda>c. Responded 404 (Some ''not found'')) req)) = Responded S (Some B)
        \<and> \<not> response_ok S \<longrightarrow>
        snd (top_coins (\<lambda>t. None) \<lparr> runMode = ''local'', API_KEY = Some ''k'' \<rparr>
               (\<lambda>c. Responded 404 (Some ''not found'')) req) =
          Some \<lparr> res_status = S,
                 res_body = JObj [(''error'', JStr ''Failed to fetch data from external API.''),
                                  (''details'', JStr B)] \<rparr>"
    by blast
  from all have info: "\<forall>req S B.
        (\<lambda>c. Responded 404 (Some ''not found''))
          (fst (coin_info (\<lambda>t. None) (\<lambda>n. []) \<lparr> runMode = ''local'', API_KEY = Some ''k'' \<rparr>
                  (\<lambda>c. Responded 404 (Some ''not found'')) req)) = Responded S (Some B)
        \<and> \<not> response_ok S \<longrightarrow>
        snd (coin_info (\<lambda>t. None) (\<lambda>n. []) \<lparr> runMode = ''local'', API_KEY = Some ''k'' \<rparr>
               (\<lambda>c. Responded 404 (Some ''not found'')) req) =
          Some \<lparr> res_status = S,
                 res_body = JObj [(''error'', JStr ''Failed to fetch data from external API.''),
                                  (''details'', JStr B)] \<rparr>"
    by blast
  have r1: "snd (top_coins (\<lambda>t. None) \<lparr> runMode = ''local'', API_KEY = Some ''k'' \<rparr>
            (\<lambda>c. Responded 404 (Some ''not found'')) \<lparr> query = Map.empty \<rparr>) =
     Some \<lparr> res_status = 404,
            res_body = JObj [(''error'', JStr ''Failed to fetch data from external API.''),
                             (''details'', JStr ''not found'')] \<rparr>"
    using top ok by simp
  have r2: "snd (coin_info (\<lambda>t. None) (\<lambda>n. []) \<lparr> runMode = ''local'', API_KEY = Some ''k'' \<rparr>
            (\<lambda>c. Responded 404 (Some ''not found''))
            \<lparr> query = [''symbol'' \<mapsto> QStr ''BTC''] \<rparr>) =
     Some \<lparr> res_status = 404,
            res_body = JObj [(''error'', JStr ''Failed to fetch data from external API.''),
                             (''details'', JStr ''not found'')] \<rparr>"
    using info ok by simp
  from ok r1 r2 show ?thesis
    by simp
qed

section \<open>Graph rendering\<close>

lemma foldl_on_data: "foldl on_data acc es = acc @ stdout_text es"
  by (induction es arbitrary: acc rule: stdout_text.induct) simp_all

lemma graph_response:
  "spawn (stringify body) = Some run \<Longrightarrow>
   snd (graph parse stringify spawn body) =
     Some (on_close parse (stdout_text (child_events run)) (child_code run))"
  by (simp add: graph_def Let_def foldl_on_data)

text \<open>
  C4. Let the process spawned for a request write the chunks \<open>es\<close> and close with
  \<open>code\<close>. If the code is 0 and the accumulated output parses to \<open>v\<close>, the response
  is 200 \<open>{success: true, graphData: v}\<close>. If the code is not 0 (or the process was
  killed), the response is 500 \<open>{success: false, error: "Graph generation failed"}\<close>
  whatever the parser is, so the output is not parsed. If the code is 0 and the output
  does not parse, the response is 500 \<open>{success: false, error: "Failed to process graph
  data"}\<close>.
\<close>

theorem graph_outcomes:
  "spawn (stringify body) = Some \<lparr> child_events = es, child_code = code \<rparr> \<Longrightarrow>
   (code = Some 0 \<and> parse (stdout_text es) = Some v \<longrightarrow>
      snd (graph parse stringify spawn body) =
        Some \<lparr> res_status = 200,
               res_body = JObj [(''success'', JBool True), (''graphData'', v)] \<rparr>)
   \<and> (code \<noteq> Some 0 \<longrightarrow>
      (\<forall>p. snd (graph p stringify spawn body) =
        Some \<lparr> res_status = 500,
               res_body = JObj [(''success'', JBool False),
                                (''error'', JStr ''Graph generation failed'')] \<rparr>))
   \<and> (code = Some 0 \<and> parse (stdout_text es) = None \<longrightarrow>
      snd (graph parse stringify spawn body) =
        Some \<lparr> res_status = 500,
               res_body = JObj [(''success'', JBool False),
                                (''error'', JStr ''Failed to process graph data'')] \<rparr>)"
  by (simp add: graph_response on_close_def)

text \<open>
  The three runs of the specification: exit 0 with the output \<open>{"a":1}\<close> arriving in
  two chunks, exit 1, and exit 0 with the output \<open>not-json\<close>. The parser is one that
  knows the first document and rejects everything else.
\<close>

theorem graph_outcomes_witness:
  \<open>(\<lambda>i. Some \<lparr> child_events = [Stdout ''{"a"'', Stderr ''warn'', Stdout '':1}''], child_code = Some 0 \<rparr>) ''in''
     = Some \<lparr> child_events = [Stdout ''{"a"'', Stderr ''warn'', Stdout '':1}''], child_code = Some 0 \<rparr>
   \<and> [''{"a":1}'' \<mapsto> JObj [(''a'', JNum 1)]]
        (stdout_text [Stdout ''{"a"'', Stderr ''warn'', Stdout '':1}'']) = Some (JObj [(''a'', JNum 1)])
   \<and> snd (graph [''{"a":1}'' \<mapsto> JObj [(''a'', JNum 1)]] (\<lambda>b. ''in'')
        (\<lambda>i. Some \<lparr> child_events = [Stdout ''{"a"'', Stderr ''warn'', Stdout '':1}''], child_code = Some 0 \<rparr>)
        JNull)
      = Some \<lparr> res_status = 200,
          res_body = JObj [(''success'', JBool True), (''graphData'', JObj [(''a'', JNum 1)])] \<rparr>
   \<and> snd (graph [''{"a":1}'' \<mapsto> JObj [(''a'', JNum 1)]] (\<lambda>b. ''in'')
        (\<lambda>i. Some \<lparr> child_events = [Stdout ''{"a":1}''], child_code = Some 1 \<rparr>) JNull)
      = Some \<lparr> res_status = 500,
          res_body = JObj [(''success'', JBool False), (''error'', JStr ''Graph generation failed'')] \<rparr>
   \<and> [''{"a":1}'' \<mapsto> JObj [(''a'', JNum 1)]] (stdout_text [Stdout ''not-json'']) = None
   \<and> snd (graph [''{"a":1}'' \<mapsto> JObj [(''a'', JNum 1)]] (\<lambda>b. ''in'')
        (\<lambda>i. Some \<lparr> child_events = [Stdout ''not-json''], child_code = Some 0 \<rparr>) JNull)
      = Some \<lparr> res_status = 500,
          res_body = JObj [(''success'', JBool False),
                           (''error'', JStr ''Failed to process graph data'')] \<rparr>\<close>
  using graph_outcomes [where spawn = \<open>\<lambda>i. Some \<lparr> child_events = [Stdout ''{"a"'', Stderr ''warn'', Stdout '':1}''], child_code = Some 0 \<rparr>\<close>
          and stringify = \<open>\<lambda>b. ''in''\<close> and body = JNull
          and es = \<open>[Stdout ''{"a"'', Stderr ''warn'', Stdout '':1}'']\<close> and code = \<open>Some 0\<close>
          and parse = \<open>[''{"a":1}'' \<mapsto> JObj [(''a'', JNum 1)]]\<close> and v = \<open>JObj [(''a'', JNum 1)]\<close>]
        graph_outcomes [where spawn = \<open>\<lambda>i. Some \<lparr> child_events = [Stdout ''{"a":1}''], child_code = Some 1 \<rparr>\<close>
          and stringify = \<open>\<lambda>b. ''in''\<close> and body = JNull
          and es = \<open>[Stdout ''{"a":1}'']\<close> and code = \<open>Some 1\<close>
          and parse = \<open>[''{"a":1}'' \<mapsto> JObj [(''a'', JNum 1)]]\<close> and v = JNull]
        graph_outcomes [where spawn = \<open>\<lambda>i. Some \<lparr> child_events = [Stdout ''not-json''], child_code = Some 0 \<rparr>\<close>
          and stringify = \<open>\<lambda>b. ''in''\<close> and body = JNull
          and es = \<open>[Stdout ''not-json'']\<close> and code = \<open>Some 0\<close>
          and parse = \<open>[''{"a":1}'' \<mapsto> JObj [(''a'', JNum 1)]]\<close> and v = JNull]
  by simp

section \<open>Market data\<close>





lemma market_page_limit_lookup:
  "map_of (searchParams (market_data_target inexact req)) ''page'' =
     Some (number_to_string inexact (or_default (parseInt (to_string (query req ''page''))) 1))"
  "map_of (searchParams (market_data_target inexact req)) ''limit'' =
     Some (number_to_string inexact (or_default (parseInt (to_string (query req ''limit''))) 12))"
  by (simp_all add: searchParams_market URLSearchParams_def market_data_params_def)



lemma or_default_cases:
  "number_to_string inexact (or_default x d) =
     (case x of
        NaN \<Rightarrow> number_to_string inexact (Finite d)
      | Finite n \<Rightarrow> if n = 0 then number_to_string inexact (Finite d)
                    else number_to_string inexact (Finite n))"
  by (simp add: or_default_def num_truthy_def split: jsnum.splits)

lemma number_to_string_nat:
  "n \<le> 2 ^ 53 \<Longrightarrow> number_to_string inexact (Finite (int n)) = show_nat n"
proof -
  assume "n \<le> 2 ^ 53"
  then have "int n \<le> 2 ^ 53"
    by (metis of_nat_le_iff of_nat_numeral of_nat_power)
  then show ?thesis
    by (simp add: number_to_string_def)
qed

lemma decimal_forwarded:
  assumes "0 < n" and "n \<le> 2 ^ 53"
  shows "number_to_string inexact (or_default (parseInt (to_string (Some (QStr (show_nat n))))) d)
           = show_nat n"
  using assms by (simp add: parseInt_show_nat or_default_def num_truthy_def number_to_string_nat)

text \<open>
  C9. The page (and limit) value sent upstream is the string of the number
  \<open>parseInt\<close> returns on the inbound value; where that number is \<open>NaN\<close> or 0 it is
  the default, 1 (and 12). A decimal numeral of a positive integer up to \<open>2 ^ 53\<close>, the
  range in which JavaScript numbers are exact, is forwarded as it came. No value of
  page or limit keeps the handler from issuing the upstream GET, and a successful
  upstream answer is the response.
\<close>

theorem page_limit_parsed:
  "map_of (searchParams (market_data_target inexact req)) ''page'' =
     Some (case parseInt (to_string (query req ''page'')) of
             NaN \<Rightarrow> ''1''
           | Finite n \<Rightarrow> if n = 0 then ''1'' else number_to_string inexact (Finite n))
   \<and> map_of (searchParams (market_data_target inexact req)) ''limit'' =
     Some (case parseInt (to_string (query req ''limit'')) of
             NaN \<Rightarrow> ''12''
           | Finite n \<Rightarrow> if n = 0 then ''12'' else number_to_string inexact (Finite n))
   \<and> (\<forall>n. 0 < n \<and> n \<le> 2 ^ 53 \<and> query req ''page'' = Some (QStr (show_nat n)) \<longrightarrow>
         map_of (searchParams (market_data_target inexact req)) ''page'' = Some (show_nat n))
   \<and> (\<forall>n. 0 < n \<and> n \<le> 2 ^ 53 \<and> query req ''limit'' = Some (QStr (show_nat n)) \<longrightarrow>
         map_of (searchParams (market_data_target inexact req)) ''limit'' = Some (show_nat n))
   \<and> fst (market_data parse inexact cfg net req) =
       \<lparr> out_method = ''GET'', out_url = href (market_data_target inexact req),
         out_headers = getAuthHeaders cfg req \<rparr>
   \<and> (\<forall>b d. net \<lparr> out_method = ''GET'', out_url = href (market_data_target inexact req),
                   out_headers = getAuthHeaders cfg req \<rparr> = Responded 200 (Some b)
              \<and> parse b = Some d \<longrightarrow>
         snd (market_data parse inexact cfg net req) = Some \<lparr> res_status = 200, res_body = d \<rparr>)"
proof -
  have call: "fst (market_data parse inexact cfg net req) =
       \<lparr> out_method = ''GET'', out_url = href (market_data_target inexact req),
         out_headers = getAuthHeaders cfg req \<rparr>"
    by (simp add: market_data_def handleApiRequest_def Let_def)
  have ok: "snd (market_data parse inexact cfg net req) = Some \<lparr> res_status = 200, res_body = d \<rparr>"
    if "net \<lparr> out_method = ''GET'', out_url = href (market_data_target inexact req),
               out_headers = getAuthHeaders cfg req \<rparr> = Responded 200 (Some b)"
      and "parse b = Some d" for b d
    using that
    by (simp add: market_data_def handleApiRequest_def Let_def try_fetch_def response_ok_def)
  have page: "map_of (searchParams (market_data_target inexact req)) ''page'' =
     Some (case parseInt (to_string (query req ''page'')) of
             NaN \<Rightarrow> ''1''
           | Finite n \<Rightarrow> if n = 0 then ''1'' else number_to_string inexact (Finite n))"
    by (simp add: market_page_limit_lookup or_default_cases small_numbers split: jsnum.splits)
  have limit: "map_of (searchParams (market_data_target inexact req)) ''limit'' =
     Some (case parseInt (to_string (query req ''limit'')) of
             NaN \<Rightarrow> ''12''
           | Finite n \<Rightarrow> if n = 0 then ''12'' else number_to_string inexact (Finite n))"
    by (simp add: market_page_limit_lookup or_default_cases small_numbers split: jsnum.splits)
  have dec_page: "map_of (searchParams (market_data_target inexact req)) ''page'' = Some (show_nat n)"
    if "0 < n \<and> n \<le> 2 ^ 53 \<and> query req ''page'' = Some (QStr (show_nat n))" for n
    using that decimal_forwarded [of n inexact 1] by (simp add: market_page_limit_lookup)
  have dec_limit: "map_of (searchParams (market_data_target inexact req)) ''limit'' = Some (show_nat n)"
    if "0 < n \<and> n \<le> 2 ^ 53 \<and> query req ''limit'' = Some (QStr (show_nat n))" for n
    using that decimal_forwarded [of n inexact 12] by (simp add: market_page_limit_lookup)
  from page limit dec_page dec_limit call ok show ?thesis
    by blast
qed

theorem page_limit_parsed_witness:
  "parseInt (to_string (query \<lparr> query = [''page'' \<mapsto> QStr ''0'', ''limit'' \<mapsto> QStr ''abc''] \<rparr> ''page''))
     = Finite 0
   \<and> parseInt (to_string (query \<lparr> query = [''page'' \<mapsto> QStr ''0'', ''limit'' \<mapsto> QStr ''abc''] \<rparr> ''limit''))
     = NaN
   \<and> map_of (searchParams (market_data_target (\<lambda>n. [])
               \<lparr> query = [''page'' \<mapsto> QStr ''0'', ''limit'' \<mapsto> QStr ''abc''] \<rparr>)) ''page'' = Some ''1''
   \<and> map_of (searchParams (market_data_target (\<lambda>n. [])
               \<lparr> query = [''page'' \<mapsto> QStr ''0'', ''limit'' \<mapsto> QStr ''abc''] \<rparr>)) ''limit'' = Some ''12''
   \<and> (0::nat) < 7 \<and> (7::nat) \<le> 2 ^ 53
   \<and> query \<lparr> query = [''page'' \<mapsto> QStr ''7''] \<rparr> ''page'' = Some (QStr (show_nat 7))
   \<and> map_of (searchParams (market_data_target (\<lambda>n. []) \<lparr> query = [''page'' \<mapsto> QStr ''7''] \<rparr>))
         ''page'' = Some ''7''
   \<and> snd (market_data [''[]'' \<mapsto> JArr []] (\<lambda>n. []) \<lparr> runMode = ''local'', API_KEY = Some ''k'' \<rparr>
            (\<lambda>c. Responded 200 (Some ''[]''))
            \<lparr> query = [''page'' \<mapsto> QStr ''0'', ''limit'' \<mapsto> QStr ''abc''] \<rparr>)
       = Some \<lparr> res_status = 200, res_body = JArr [] \<rparr>"
proof -
  have seven: "show_nat 7 = ''7''"
    by (simp add: show_nat_small)
  note bad = page_limit_parsed [of "\<lambda>n. []"
      "\<lparr> query = [''page'' \<mapsto> QStr ''0'', ''limit'' \<mapsto> QStr ''abc''] \<rparr>"
      "[''[]'' \<mapsto> JArr []]" "\<lparr> runMode = ''local'', API_KEY = Some ''k'' \<rparr>"
      "\<lambda>c. Responded 200 (Some ''[]'')"]
  note good = page_limit_parsed [of "\<lambda>n. []" "\<lparr> query = [''page'' \<mapsto> QStr ''7''] \<rparr>"
      "[''[]'' \<mapsto> JArr []]" "\<lparr> runMode = ''local'', API_KEY = Some ''k'' \<rparr>"
      "\<lambda>c. Responded 200 (Some ''[]'')"]
  have p0: "parseInt (to_string (query \<lparr> query = [''page'' \<mapsto> QStr ''0'', ''limit'' \<mapsto> QStr ''abc''] \<rparr> ''page''))
     = Finite 0"
    by (simp add: parseInt_examples)
  have l0: "parseInt (to_string (query \<lparr> query = [''page'' \<mapsto> QStr ''0'', ''limit'' \<mapsto> QStr ''abc''] \<rparr> ''limit''))
     = NaN"
    by (simp add: parseInt_examples)
  from bad have page: "map_of (searchParams (market_data_target (\<lambda>n. [])
               \<lparr> query = [''page'' \<mapsto> QStr ''0'', ''limit'' \<mapsto> QStr ''abc''] \<rparr>)) ''page'' = Some ''1''"
    unfolding p0 by simp
  from bad have limit: "map_of (searchParams (market_data_target (\<lambda>n. [])
               \<lparr> query = [''page'' \<mapsto> QStr ''0'', ''limit'' \<mapsto> QStr ''abc''] \<rparr>)) ''limit'' = Some ''12''"
    unfolding l0 by simp
  from bad have resp: "snd (market_data [''[]'' \<mapsto> JArr []] (\<lambda>n. []) \<lparr> runMode = ''local'', API_KEY = Some ''k'' \<rparr>
            (\<lambda>c. Responded 200 (Some ''[]''))
            \<lparr> query = [''page'' \<mapsto> QStr ''0'', ''limit'' \<mapsto> QStr ''abc''] \<rparr>)
       = Some \<lparr> res_status = 200, res_body = JArr [] \<rparr>"
    by simp
  have q7: "query \<lparr> query = [''page'' \<mapsto> QStr ''7''] \<rparr> ''page'' = Some (QStr (show_nat 7))"
    by (simp add: seven)
  have b7: "(0::nat) < 7 \<and> (7::nat) \<le> 2 ^ 53"
    by simp
  from good have "\<forall>n. 0 < n \<and> n \<le> 2 ^ 53
        \<and> query \<lparr> query = [''page'' \<mapsto> QStr ''7''] \<rparr> ''page'' = Some (QStr (show_nat n)) \<longrightarrow>
         map_of (searchParams (market_data_target (\<lambda>n. []) \<lparr> query = [''page'' \<mapsto> QStr ''7''] \<rparr>))
           ''page'' = Some (show_nat n)"
    by blast
  with b7 q7 have "map_of (searchParams (market_data_target (\<lambda>n. []) \<lparr> query = [''page'' \<mapsto> QStr ''7''] \<rparr>))
           ''page'' = Some (show_nat 7)"
    by blast
  then have p7: "map_of (searchParams (market_data_target (\<lambda>n. []) \<lparr> query = [''page'' \<mapsto> QStr ''7''] \<rparr>))
           ''page'' = Some ''7''"
    by (simp only: seven)
  from p0 l0 page limit b7 q7 p7 resp show ?thesis
    by blast
qed

section \<open>Coin info and coin holders\<close>

lemma coin_info_pairs:
  "URLSearchParams inexact (coin_info_params req) =
     [(''timeframe'', if truthy (query req ''timeframe'') then to_string (query req ''timeframe'')
                      else ''1m'')]"
  by (simp add: URLSearchParams_def coin_info_params_def)

lemma coin_holders_pairs:
  "URLSearchParams inexact (coin_holders_params req) =
     [(''limit'', if truthy (query req ''limit'') then to_string (query req ''limit'') else ''50'')]"
  by (simp add: URLSearchParams_def coin_holders_params_def small_numbers)

lemma coin_info_target_plain:
  assumes "list_all plain_char s" and "\<not> single_dot s" and "\<not> double_dot s"
    and "to_string (query req ''symbol'') = s"
  shows "coin_info_target inexact req =
           \<lparr> url_path = [''api'', ''v1'', ''coin'', s],
             url_query = Some (form_serialize (URLSearchParams inexact (coin_info_params req))),
             url_fragment = None \<rparr>"
proof -
  have "URLSearchParams inexact (coin_info_params req) \<noteq> []"
    by (simp add: coin_info_pairs)
  then show ?thesis
    using new_URL_coin [OF assms(1-3)]
    by (simp add: coin_info_target_def assms(4) set_search_serialize)
qed

lemma coin_holders_target_plain:
  assumes "list_all plain_char s" and "\<not> single_dot s" and "\<not> double_dot s"
    and "to_string (query req ''symbol'') = s"
  shows "coin_holders_target inexact req =
           \<lparr> url_path = [''api'', ''v1'', ''holders'', s],
             url_query = Some (form_serialize (URLSearchParams inexact (coin_holders_params req))),
             url_fragment = None \<rparr>"
proof -
  have "URLSearchParams inexact (coin_holders_params req) \<noteq> []"
    by (simp add: coin_holders_pairs)
  then show ?thesis
    using new_URL_holders [OF assms(1-3)]
    by (simp add: coin_holders_target_def assms(4) set_search_serialize)
qed

lemma valid_symbol_plain:
  assumes "valid_symbol s"
  shows "list_all plain_char s" "\<not> single_dot s" "\<not> double_dot s"
proof -
  from assms have a: "list_all is_alnum s"
    by (simp add: valid_symbol_def)
  then show "list_all plain_char s"
    by (simp add: list_all_iff alnum_plain)
  from a show "\<not> single_dot s" "\<not> double_dot s"
    by (rule alnum_not_dots)+
qed

lemma form_serialize_one: "form_serialize [(k, v)] = form_encode k @ ''='' @ form_encode v"
  by (simp add: form_serialize_single form_pair_def)

lemma form_encode_names:
  "form_encode ''timeframe'' = ''timeframe''" "form_encode ''limit'' = ''limit''"
  by code_simp+

lemma route_calls:
  "fst (coin_info parse inexact cfg net req) =
     \<lparr> out_method = ''GET'', out_url = href (coin_info_target inexact req),
       out_headers = getAuthHeaders cfg req \<rparr>"
  "fst (coin_holders parse inexact cfg net req) =
     \<lparr> out_method = ''GET'', out_url = href (coin_holders_target inexact req),
       out_headers = getAuthHeaders cfg req \<rparr>"
  by (simp_all add: coin_info_def coin_holders_def handleApiRequest_call)

text \<open>
  C5. For a valid symbol \<open>s\<close>, the coin-info handler requests
  \<open>https://rugplay.com/api/v1/coin/s?timeframe=v\<close> and the coin-holders handler
  \<open>https://rugplay.com/api/v1/holders/s?limit=v\<close>: the symbol is the last path segment
  of the target, unchanged, and \<open>v\<close> is the form encoding of the parameter (the inbound
  value, or the default \<open>1m\<close> or \<open>50\<close>), which reads back as that value.
\<close>

theorem valid_symbol_targets:
  assumes "valid_symbol s" and "query req ''symbol'' = Some (QStr s)"
  shows
    "href (coin_info_target inexact req) =
       ''https://rugplay.com/api/v1/coin/'' @ s @ ''?timeframe=''
         @ form_encode (if truthy (query req ''timeframe'') then to_string (query req ''timeframe'')
                        else ''1m'')
     \<and> url_path (coin_info_target inexact req) = [''api'', ''v1'', ''coin'', s]
     \<and> searchParams (coin_info_target inexact req) =
         [(''timeframe'', if truthy (query req ''timeframe'') then to_string (query req ''timeframe'')
                          else ''1m'')]
     \<and> href (coin_holders_target inexact req) =
       ''https://rugplay.com/api/v1/holders/'' @ s @ ''?limit=''
         @ form_encode (if truthy (query req ''limit'') then to_string (query req ''limit'')
                        else ''50'')
     \<and> url_path (coin_holders_target inexact req) = [''api'', ''v1'', ''holders'', s]
     \<and> searchParams (coin_holders_target inexact req) =
         [(''limit'', if truthy (query req ''limit'') then to_string (query req ''limit'')
                      else ''50'')]
     \<and> fst (coin_info parse inexact cfg net req) =
         \<lparr> out_method = ''GET'',
           out_url = ''https://rugplay.com/api/v1/coin/'' @ s @ ''?timeframe=''
             @ form_encode (if truthy (query req ''timeframe'')
                            then to_string (query req ''timeframe'') else ''1m''),
           out_headers = getAuthHeaders cfg req \<rparr>
     \<and> fst (coin_holders parse inexact cfg net req) =
         \<lparr> out_method = ''GET'',
           out_url = ''https://rugplay.com/api/v1/holders/'' @ s @ ''?limit=''
             @ form_encode (if truthy (query req ''limit'')
                            then to_string (query req ''limit'') else ''50''),
           out_headers = getAuthHeaders cfg req \<rparr>"
proof -
  have sym: "to_string (query req ''symbol'') = s"
    by (simp add: assms(2))
  note info = coin_info_target_plain [OF valid_symbol_plain [OF assms(1)] sym, of inexact]
  note holders = coin_holders_target_plain [OF valid_symbol_plain [OF assms(1)] sym, of inexact]
  have i1: "href (coin_info_target inexact req) =
       ''https://rugplay.com/api/v1/coin/'' @ s @ ''?timeframe=''
         @ form_encode (if truthy (query req ''timeframe'') then to_string (query req ''timeframe'')
                        else ''1m'')"
    unfolding info href_target coin_info_pairs form_serialize_one form_encode_names by simp
  have i2: "url_path (coin_info_target inexact req) = [''api'', ''v1'', ''coin'', s]"
    unfolding info by simp
  have i3: "searchParams (coin_info_target inexact req) =
         [(''timeframe'', if truthy (query req ''timeframe'') then to_string (query req ''timeframe'')
                          else ''1m'')]"
    unfolding info by (simp add: searchParams_def form_parse_serialize coin_info_pairs)
  have h1: "href (coin_holders_target inexact req) =
       ''https://rugplay.com/api/v1/holders/'' @ s @ ''?limit=''
         @ form_encode (if truthy (query req ''limit'') then to_string (query req ''limit'')
                        else ''50'')"
    unfolding holders href_target coin_holders_pairs form_serialize_one form_encode_names by simp
  have h2: "url_path (coin_holders_target inexact req) = [''api'', ''v1'', ''holders'', s]"
    unfolding holders by simp
  have h3: "searchParams (coin_holders_target inexact req) =
         [(''limit'', if truthy (query req ''limit'') then to_string (query req ''limit'')
                      else ''50'')]"
    unfolding holders by (simp add: searchParams_def form_parse_serialize coin_holders_pairs)
  have i4: "fst (coin_info parse inexact cfg net req) =
         \<lparr> out_method = ''GET'',
           out_url = ''https://rugplay.com/api/v1/coin/'' @ s @ ''?timeframe=''
             @ form_encode (if truthy (query req ''timeframe'')
                            then to_string (query req ''timeframe'') else ''1m''),
           out_headers = getAuthHeaders cfg req \<rparr>"
    unfolding route_calls i1 ..
  have h4: "fst (coin_holders parse inexact cfg net req) =
         \<lparr> out_method = ''GET'',
           out_url = ''https://rugplay.com/api/v1/holders/'' @ s @ ''?limit=''
             @ form_encode (if truthy (query req ''limit'')
                            then to_string (query req ''limit'') else ''50''),
           out_headers = getAuthHeaders cfg req \<rparr>"
    unfolding route_calls h1 ..
  from i1 i2 i3 h1 h2 h3 i4 h4 show ?thesis
    by blast
qed

theorem valid_symbol_targets_witness:
  "valid_symbol ''BTC''
   \<and> query \<lparr> query = [''symbol'' \<mapsto> QStr ''BTC'', ''timeframe'' \<mapsto> QStr ''1 h&x''] \<rparr> ''symbol''
       = Some (QStr ''BTC'')
   \<and> href (coin_info_target (\<lambda>n. [])
              \<lparr> query = [''symbol'' \<mapsto> QStr ''BTC'', ''timeframe'' \<mapsto> QStr ''1 h&x''] \<rparr>)
       = ''https://rugplay.com/api/v1/coin/BTC?timeframe=1+h%26x''
   \<and> searchParams (coin_info_target (\<lambda>n. [])
              \<lparr> query = [''symbol'' \<mapsto> QStr ''BTC'', ''timeframe'' \<mapsto> QStr ''1 h&x''] \<rparr>)
       = [(''timeframe'', ''1 h&x'')]
   \<and> href (coin_holders_target (\<lambda>n. [])
              \<lparr> query = [''symbol'' \<mapsto> QStr ''BTC'', ''timeframe'' \<mapsto> QStr ''1 h&x''] \<rparr>)
       = ''https://rugplay.com/api/v1/holders/BTC?limit=50''
   \<and> fst (coin_info (\<lambda>t. None) (\<lambda>n. []) \<lparr> runMode = ''local'', API_KEY = Some ''k'' \<rparr>
            (\<lambda>c. Rejected)
            \<lparr> query = [''symbol'' \<mapsto> QStr ''BTC'', ''timeframe'' \<mapsto> QStr ''1 h&x''] \<rparr>) =
         \<lparr> out_method = ''GET'',
           out_url = ''https://rugplay.com/api/v1/coin/BTC?timeframe=1+h%26x'',
           out_headers = [(''Authorization'', ''Bearer k''), (''Content-Type'', ''application/json'')] \<rparr>
   \<and> fst (coin_holders (\<lambda>t. None) (\<lambda>n. []) \<lparr> runMode = ''local'', API_KEY = Some ''k'' \<rparr>
            (\<lambda>c. Rejected)
            \<lparr> query = [''symbol'' \<mapsto> QStr ''BTC'', ''timeframe'' \<mapsto> QStr ''1 h&x''] \<rparr>) =
         \<lparr> out_method = ''GET'',
           out_url = ''https://rugplay.com/api/v1/holders/BTC?limit=50'',
           out_headers = [(''Authorization'', ''Bearer k''), (''Content-Type'', ''application/json'')] \<rparr>"
proof -
  have v: "valid_symbol ''BTC''"
    by (simp add: valid_symbol_def is_alnum_def byte_def)
  have q: "query \<lparr> query = [''symbol'' \<mapsto> QStr ''BTC'', ''timeframe'' \<mapsto> QStr ''1 h&x''] \<rparr> ''symbol''
       = Some (QStr ''BTC'')"
    by simp
  have e: "form_encode ''1 h&x'' = ''1+h%26x''" "form_encode ''50'' = ''50''"
    by code_simp+
  from valid_symbol_targets [OF v q, where inexact = "\<lambda>n. []" and parse = "\<lambda>t. None"
         and cfg = "\<lparr> runMode = ''local'', API_KEY = Some ''k'' \<rparr>" and net = "\<lambda>c. Rejected"] v q
  show ?thesis
    by (simp add: e getAuthHeaders_local)
qed

text \<open>
  C10. A coin-info or coin-holders request without \<open>symbol\<close> is not answered locally:
  the handler issues the upstream GET, and the path of its target ends in the segment
  \<open>undefined\<close>. A successful upstream answer is the response.
\<close>

theorem missing_symbol_undefined:
  assumes "query req ''symbol'' = None"
  shows
    "url_path (coin_info_target inexact req) = [''api'', ''v1'', ''coin'', ''undefined'']
     \<and> fst (coin_info parse inexact cfg net req) =
         \<lparr> out_method = ''GET'',
           out_url = ''https://rugplay.com/api/v1/coin/undefined?''
                       @ form_serialize (URLSearchParams inexact (coin_info_params req)),
           out_headers = getAuthHeaders cfg req \<rparr>
     \<and> (\<forall>b d. net (fst (coin_info parse inexact cfg net req)) = Responded 200 (Some b)
                \<and> parse b = Some d \<longrightarrow>
           snd (coin_info parse inexact cfg net req) = Some \<lparr> res_status = 200, res_body = d \<rparr>)
     \<and> url_path (coin_holders_target inexact req) = [''api'', ''v1'', ''holders'', ''undefined'']
     \<and> fst (coin_holders parse inexact cfg net req) =
         \<lparr> out_method = ''GET'',
           out_url = ''https://rugplay.com/api/v1/holders/undefined?''
                       @ form_serialize (URLSearchParams inexact (coin_holders_params req)),
           out_headers = getAuthHeaders cfg req \<rparr>
     \<and> (\<forall>b d. net (fst (coin_holders parse inexact cfg net req)) = Responded 200 (Some b)
                \<and> parse b = Some d \<longrightarrow>
           snd (coin_holders parse inexact cfg net req) = Some \<lparr> res_status = 200, res_body = d \<rparr>)"
proof -
  have u: "valid_symbol ''undefined''"
    by (simp add: valid_symbol_def is_alnum_def byte_def)
  have sym: "to_string (query req ''symbol'') = ''undefined''"
    by (simp add: assms)
  note info = coin_info_target_plain [OF valid_symbol_plain [OF u] sym, of inexact]
  note holders = coin_holders_target_plain [OF valid_symbol_plain [OF u] sym, of inexact]
  have i1: "url_path (coin_info_target inexact req) = [''api'', ''v1'', ''coin'', ''undefined'']"
    unfolding info by simp
  have i2: "fst (coin_info parse inexact cfg net req) =
         \<lparr> out_method = ''GET'',
           out_url = ''https://rugplay.com/api/v1/coin/undefined?''
                       @ form_serialize (URLSearchParams inexact (coin_info_params req)),
           out_headers = getAuthHeaders cfg req \<rparr>"
    unfolding coin_info_def info href_target by (simp add: handleApiRequest_def Let_def)
  have i3: "snd (coin_info parse inexact cfg net req) = Some \<lparr> res_status = 200, res_body = d \<rparr>"
    if "net (fst (coin_info parse inexact cfg net req)) = Responded 200 (Some b) \<and> parse b = Some d"
    for b d
    using that
    by (simp add: coin_info_def handleApiRequest_def Let_def try_fetch_def response_ok_def)
  have h1: "url_path (coin_holders_target inexact req) = [''api'', ''v1'', ''holders'', ''undefined'']"
    unfolding holders by simp
  have h2: "fst (coin_holders parse inexact cfg net req) =
         \<lparr> out_method = ''GET'',
           out_url = ''https://rugplay.com/api/v1/holders/undefined?''
                       @ form_serialize (URLSearchParams inexact (coin_holders_params req)),
           out_headers = getAuthHeaders cfg req \<rparr>"
    unfolding coin_holders_def holders href_target by (simp add: handleApiRequest_def Let_def)
  have h3: "snd (coin_holders parse inexact cfg net req) = Some \<lparr> res_status = 200, res_body = d \<rparr>"
    if "net (fst (coin_holders parse inexact cfg net req)) = Responded 200 (Some b) \<and> parse b = Some d"
    for b d
    using that
    by (simp add: coin_holders_def handleApiRequest_def Let_def try_fetch_def response_ok_def)
  from i1 i2 i3 h1 h2 h3 show ?thesis
    by blast
qed

theorem missing_symbol_undefined_witness:
  "query \<lparr> query = Map.empty \<rparr> ''symbol'' = None
   \<and> fst (coin_info (\<lambda>t. None) (\<lambda>n. []) \<lparr> runMode = ''local'', API_KEY = Some ''k'' \<rparr>
            (\<lambda>c. Rejected) \<lparr> query = Map.empty \<rparr>) =
         \<lparr> out_method = ''GET'',
           out_url = ''https://rugplay.com/api/v1/coin/undefined?timeframe=1m'',
           out_headers = [(''Authorization'', ''Bearer k''), (''Content-Type'', ''application/json'')] \<rparr>
   \<and> fst (coin_holders (\<lambda>t. None) (\<lambda>n. []) \<lparr> runMode = ''local'', API_KEY = Some ''k'' \<rparr>
            (\<lambda>c. Rejected) \<lparr> query = Map.empty \<rparr>) =
         \<lparr> out_method = ''GET'',
           out_url = ''https://rugplay.com/api/v1/holders/undefined?limit=50'',
           out_headers = [(''Authorization'', ''Bearer k''), (''Content-Type'', ''application/json'')] \<rparr>"
proof -
  have q: "query \<lparr> query = Map.empty \<rparr> ''symbol'' = None"
    by simp
  have e: "form_encode ''1m'' = ''1m''" "form_encode ''50'' = ''50''"
    by code_simp+
  from missing_symbol_undefined [OF q, of "\<lambda>n. []" "\<lambda>t. None"
         "\<lparr> runMode = ''local'', API_KEY = Some ''k'' \<rparr>" "\<lambda>c. Rejected"] q
  show ?thesis
    by (simp add: coin_info_pairs coin_holders_pairs form_serialize_one form_encode_names e
          getAuthHeaders_local)
qed

end
